theory Spec2Isabelle
  imports Complex_Main
begin

section \<open>Double-precision values\<close>

text \<open>
  The arrays of the program hold float64 numbers. A value is modelled as a finite number,
  one of the two infinities, or NaN. Finite arithmetic is the arithmetic of the reals:
  rounding, overflow and underflow are not modelled. What is modelled is the way IEEE 754
  treats the special values, above all division by zero: \<open>0 / 0\<close> is NaN and \<open>x / 0\<close> is an
  infinity. The sign of zero is not modelled; a zero divisor counts as \<open>+0\<close>, which is what
  the subtraction \<open>1.0 - exp(..)\<close> of the transfer function yields when it is zero.
\<close>

datatype f8 = Fin real | PInf | NInf | NaN

instantiation f8 :: "{uminus, plus, minus, times, inverse}"
begin

fun uminus_f8 :: "f8 \<Rightarrow> f8" where
  "uminus_f8 (Fin x) = Fin (- x)"
| "uminus_f8 PInf = NInf"
| "uminus_f8 NInf = PInf"
| "uminus_f8 NaN = NaN"

fun plus_f8 :: "f8 \<Rightarrow> f8 \<Rightarrow> f8" where
  "plus_f8 (Fin x) (Fin y) = Fin (x + y)"
| "plus_f8 (Fin x) PInf = PInf"
| "plus_f8 (Fin x) NInf = NInf"
| "plus_f8 PInf (Fin y) = PInf"
| "plus_f8 NInf (Fin y) = NInf"
| "plus_f8 PInf PInf = PInf"
| "plus_f8 NInf NInf = NInf"
| "plus_f8 PInf NInf = NaN"
| "plus_f8 NInf PInf = NaN"
| "plus_f8 NaN b = NaN"
| "plus_f8 a NaN = NaN"

definition minus_f8 :: "f8 \<Rightarrow> f8 \<Rightarrow> f8" where
  "minus_f8 a b = a + (- b)"

fun times_f8 :: "f8 \<Rightarrow> f8 \<Rightarrow> f8" where
  "times_f8 (Fin x) (Fin y) = Fin (x * y)"
| "times_f8 (Fin x) PInf = (if x = 0 then NaN else if 0 < x then PInf else NInf)"
| "times_f8 (Fin x) NInf = (if x = 0 then NaN else if 0 < x then NInf else PInf)"
| "times_f8 PInf (Fin y) = (if y = 0 then NaN else if 0 < y then PInf else NInf)"
| "times_f8 NInf (Fin y) = (if y = 0 then NaN else if 0 < y then NInf else PInf)"
| "times_f8 PInf PInf = PInf"
| "times_f8 NInf NInf = PInf"
| "times_f8 PInf NInf = NInf"
| "times_f8 NInf PInf = NInf"
| "times_f8 NaN b = NaN"
| "times_f8 a NaN = NaN"

fun divide_f8 :: "f8 \<Rightarrow> f8 \<Rightarrow> f8" where
  "divide_f8 (Fin x) (Fin y) =
     (if y = 0 then (if x = 0 then NaN else if 0 < x then PInf else NInf)
      else Fin (x / y))"
| "divide_f8 (Fin x) PInf = Fin 0"
| "divide_f8 (Fin x) NInf = Fin 0"
| "divide_f8 PInf (Fin y) = (if 0 \<le> y then PInf else NInf)"
| "divide_f8 NInf (Fin y) = (if 0 \<le> y then NInf else PInf)"
| "divide_f8 PInf PInf = NaN"
| "divide_f8 NInf NInf = NaN"
| "divide_f8 PInf NInf = NaN"
| "divide_f8 NInf PInf = NaN"
| "divide_f8 NaN b = NaN"
| "divide_f8 a NaN = NaN"

definition inverse_f8 :: "f8 \<Rightarrow> f8" where
  "inverse_f8 a = divide (Fin 1) a"

instance ..

end

text \<open>\<open>np.exp\<close> on one value.\<close>

fun np_exp :: "f8 \<Rightarrow> f8" where
  "np_exp (Fin x) = Fin (exp x)"
| "np_exp PInf = PInf"
| "np_exp NInf = Fin 0"
| "np_exp NaN = NaN"

text \<open>
  \<open>np.clip(x, lo, hi)\<close> on one value is \<open>minimum(maximum(x, lo), hi)\<close>; NaN stays NaN.
\<close>

fun np_clip :: "real \<Rightarrow> real \<Rightarrow> f8 \<Rightarrow> f8" where
  "np_clip lo hi (Fin x) = Fin (min (max x lo) hi)"
| "np_clip lo hi PInf = Fin hi"
| "np_clip lo hi NInf = Fin (min lo hi)"
| "np_clip lo hi NaN = NaN"

fun is_finite :: "f8 \<Rightarrow> bool" where
  "is_finite (Fin x) = True"
| "is_finite PInf = False"
| "is_finite NInf = False"
| "is_finite NaN = False"

section \<open>The transfer function\<close>

text \<open>
  Both models compute a firing rate from an argument \<open>y\<close> by the expression
  \<open>y / (1.0 - np.exp(-m[d] * y))\<close> (naskar2021.py lines 166 and 168, serotonin2A.py lines
  102 and 106). The parameter \<open>d\<close> is a finite number of the parameter table.
\<close>

definition rate :: "real \<Rightarrow> f8 \<Rightarrow> f8" where
  "rate d y = y / (Fin 1 - np_exp ((- Fin d) * y))"

text \<open>
  Errors of the Python run time, as values. \<open>Unmodelled\<close> marks an input that the list
  model of arrays cannot represent (an array with an axis of length zero).
\<close>

datatype error = IndexError | ValueError | TypeError | ZeroDivisionError | StopIteration
  | Unmodelled


section \<open>The plasticity model (naskar2021.py)\<close>

text \<open>
  The rows of the parameter table, as the module numbers them (lines 37 to 57).
\<close>

definition t_glu :: nat where "t_glu = 0"
definition t_gaba :: nat where "t_gaba = 1"
definition We :: nat where "We = 2"
definition Wi :: nat where "Wi = 3"
definition I0 :: nat where "I0 = 4"
definition w :: nat where "w = 5"
definition J_NMDA :: nat where "J_NMDA = 6"
definition M_e :: nat where "M_e = 7"
definition ae :: nat where "ae = 8"
definition be :: nat where "be = 9"
definition de :: nat where "de = 10"
definition M_i :: nat where "M_i = 11"
definition ai :: nat where "ai = 12"
definition bi :: nat where "bi = 13"
definition di :: nat where "di = 14"
definition alfa_i :: nat where "alfa_i = 15"
definition alfa_e :: nat where "alfa_e = 16"
definition B_e :: nat where "B_e = 17"
definition B_i :: nat where "B_i = 18"
definition gamma :: nat where "gamma = 19"
definition rho :: nat where "rho = 20"

text \<open>
  A state is a list of rows (one per state variable), a row a list of values (one per
  region); likewise the coupling and the two results. The element-wise operators of numpy
  act on every region separately: each line of the function is first given for one region,
  with \<open>p k\<close> the number that \<open>m[k]\<close> supplies at that region, and then applied to all of
  them. The entries of the table are finite numbers.
\<close>

type_synonym arr2 = "f8 list list"

definition Naskar2021_Ie :: "(nat \<Rightarrow> real) \<Rightarrow> f8 \<Rightarrow> f8 \<Rightarrow> f8 \<Rightarrow> f8 \<Rightarrow> f8" where
  "Naskar2021_Ie p Se Si J c =
     Fin (p We) * Fin (p I0) + Fin (p w) * Fin (p J_NMDA) * Se + Fin (p J_NMDA) * c - J * Si"

definition Naskar2021_Ii :: "(nat \<Rightarrow> real) \<Rightarrow> f8 \<Rightarrow> f8 \<Rightarrow> f8" where
  "Naskar2021_Ii p Se Si = Fin (p Wi) * Fin (p I0) + Fin (p J_NMDA) * Se - Si"

definition Naskar2021_ye :: "(nat \<Rightarrow> real) \<Rightarrow> f8 \<Rightarrow> f8" where
  "Naskar2021_ye p Ie = Fin (p M_e) * (Fin (p ae) * Ie - Fin (p be))"

definition Naskar2021_yi :: "(nat \<Rightarrow> real) \<Rightarrow> f8 \<Rightarrow> f8" where
  "Naskar2021_yi p Ii = Fin (p M_i) * (Fin (p ai) * Ii - Fin (p bi))"

definition Naskar2021_dSe :: "(nat \<Rightarrow> real) \<Rightarrow> f8 \<Rightarrow> f8 \<Rightarrow> f8" where
  "Naskar2021_dSe p Se re =
     (- Se) * Fin (p B_e) + Fin (p alfa_e) * Fin (p t_glu) * (Fin 1 - Se) * re / Fin 1000"

definition Naskar2021_dSi :: "(nat \<Rightarrow> real) \<Rightarrow> f8 \<Rightarrow> f8 \<Rightarrow> f8" where
  "Naskar2021_dSi p Si ri =
     (- Si) * Fin (p B_i) + Fin (p alfa_i) * Fin (p t_gaba) * (Fin 1 - Si) * ri / Fin 1000"

definition Naskar2021_dJ :: "(nat \<Rightarrow> real) \<Rightarrow> f8 \<Rightarrow> f8 \<Rightarrow> f8" where
  "Naskar2021_dJ p re ri = Fin (p gamma) * ri / Fin 1000 * (re - Fin (p rho)) / Fin 1000"

text \<open>
  Lines 162 to 173 on the local vectors \<open>Se\<close>, \<open>Si\<close>, \<open>J\<close> and \<open>coupling[0, :]\<close>. The table
  \<open>m\<close> is read as \<open>m k j\<close>: the number that \<open>m[k]\<close> supplies at region \<open>j\<close>. With the
  two-dimensional table of \<open>_init_dependant\<close> (the line \<open>m = self.m\<close> of the function) that
  is the entry of row \<open>k\<close> and column \<open>j\<close>; with the one-dimensional view of shape
  \<open>(n_params,)\<close> that the compiled function builds, \<open>m[k]\<close> is one number, used for every
  region (\<open>Naskar2021_view\<close> below). That the vectors have one entry per region is the
  caller's obligation.
\<close>

definition Naskar2021_arith ::
  "(nat \<Rightarrow> nat \<Rightarrow> real) \<Rightarrow> f8 list \<Rightarrow> f8 list \<Rightarrow> f8 list \<Rightarrow> f8 list \<Rightarrow> arr2 \<times> arr2" where
  "Naskar2021_arith m Se Si J c =
     (let n = length Se;
          p = (\<lambda>j k. m k j);
          Ie = (\<lambda>j. Naskar2021_Ie (p j) (Se ! j) (Si ! j) (J ! j) (c ! j));
          Ii = (\<lambda>j. Naskar2021_Ii (p j) (Se ! j) (Si ! j));
          re = (\<lambda>j. rate (p j de) (Naskar2021_ye (p j) (Ie j)));
          ri = (\<lambda>j. rate (p j di) (Naskar2021_yi (p j) (Ii j)));
          dSe = (\<lambda>j. Naskar2021_dSe (p j) (Se ! j) (re j));
          dSi = (\<lambda>j. Naskar2021_dSi (p j) (Si ! j) (ri j));
          dJ = (\<lambda>j. Naskar2021_dJ (p j) (re j) (ri j))
      in ([map dSe [0..<n], map dSi [0..<n], map dJ [0..<n]],
          [map Ie [0..<n], map re [0..<n]]))"

text \<open>The function as a map from its two arguments to its two results.\<close>

definition Naskar2021_dfun :: "(nat \<Rightarrow> nat \<Rightarrow> real) \<Rightarrow> arr2 \<Rightarrow> arr2 \<Rightarrow> arr2 \<times> arr2" where
  "Naskar2021_dfun m state coupling =
     (let Se = map (np_clip 0 1) (state ! 0);
          Si = map (np_clip 0 1) (state ! 1);
          J = state ! 2
      in Naskar2021_arith m Se Si J (coupling ! 0))"

text \<open>
  The shapes the caller owes: \<open>nv\<close> rows of state, at least one row of coupling, every
  row with \<open>n\<close> entries.
\<close>

definition dfun_shapes :: "nat \<Rightarrow> nat \<Rightarrow> arr2 \<Rightarrow> arr2 \<Rightarrow> bool" where
  "dfun_shapes nv n state coupling \<longleftrightarrow>
     length state = nv \<and> list_all (\<lambda>r. length r = n) state \<and>
     coupling \<noteq> [] \<and> list_all (\<lambda>r. length r = n) coupling"

text \<open>
  The values of the locals \<open>Ie\<close>, \<open>re\<close> and \<open>ri\<close> at region \<open>j\<close>, in terms of the two
  arguments.
\<close>

definition Naskar2021_Ie_at :: "(nat \<Rightarrow> nat \<Rightarrow> real) \<Rightarrow> arr2 \<Rightarrow> arr2 \<Rightarrow> nat \<Rightarrow> f8" where
  "Naskar2021_Ie_at m state coupling j =
     Naskar2021_Ie (\<lambda>k. m k j) (np_clip 0 1 (state ! 0 ! j)) (np_clip 0 1 (state ! 1 ! j))
       (state ! 2 ! j) (coupling ! 0 ! j)"

definition Naskar2021_ye_at :: "(nat \<Rightarrow> nat \<Rightarrow> real) \<Rightarrow> arr2 \<Rightarrow> arr2 \<Rightarrow> nat \<Rightarrow> f8" where
  "Naskar2021_ye_at m state coupling j =
     Naskar2021_ye (\<lambda>k. m k j) (Naskar2021_Ie_at m state coupling j)"

definition Naskar2021_re_at :: "(nat \<Rightarrow> nat \<Rightarrow> real) \<Rightarrow> arr2 \<Rightarrow> arr2 \<Rightarrow> nat \<Rightarrow> f8" where
  "Naskar2021_re_at m state coupling j = rate (m de j) (Naskar2021_ye_at m state coupling j)"

definition Naskar2021_yi_at :: "(nat \<Rightarrow> nat \<Rightarrow> real) \<Rightarrow> arr2 \<Rightarrow> nat \<Rightarrow> f8" where
  "Naskar2021_yi_at m state j =
     Naskar2021_yi (\<lambda>k. m k j)
       (Naskar2021_Ii (\<lambda>k. m k j) (np_clip 0 1 (state ! 0 ! j)) (np_clip 0 1 (state ! 1 ! j)))"

definition Naskar2021_ri_at :: "(nat \<Rightarrow> nat \<Rightarrow> real) \<Rightarrow> arr2 \<Rightarrow> nat \<Rightarrow> f8" where
  "Naskar2021_ri_at m state j = rate (m di j) (Naskar2021_yi_at m state j)"

text \<open>The defaults of the class attributes (lines 69 to 89), the same for every region.\<close>

definition Naskar2021_defaults :: "nat \<Rightarrow> nat \<Rightarrow> real" where
  "Naskar2021_defaults k j =
     [7.46, 1.82, 1.0, 0.7, 0.382, 1.4, 0.15, 1.0, 310.0, 125.0, 0.16,
      1.0, 615.0, 177.0, 0.087, 0.53, 0.072, 0.0066, 0.18, 1.0, 3.0] ! k"

section \<open>The fixed-gain model (serotonin2A.py)\<close>

text \<open>
  The function indexes its table through the members of \<open>P\<close>, \<open>m[np.intp(P.taon)]\<close> and so
  on. The numbers behind the members are assigned outside this file; the model indexes
  the table by the member itself. Again \<open>m q j\<close> is what \<open>m[q]\<close> supplies at region \<open>j\<close>.
\<close>

datatype P = P_taon | P_taog | P_gamma_e | P_gamma_i | P_I0 | P_w | P_J_NMDA
  | P_Jext_e | P_Jext_i | P_ae | P_be | P_de | P_ai | P_bi | P_di | P_J | P_I_external
  | P_receptor | P_w_gain_e | P_w_gain_i

definition Deco2018_Ie :: "(P \<Rightarrow> real) \<Rightarrow> f8 \<Rightarrow> f8 \<Rightarrow> f8 \<Rightarrow> f8" where
  "Deco2018_Ie p Se Si c =
     Fin (p P_Jext_e) * Fin (p P_I0) + Fin (p P_w) * Fin (p P_J_NMDA) * Se
       + Fin (p P_J_NMDA) * c - Fin (p P_J) * Si + Fin (p P_I_external)"

definition Deco2018_Ii :: "(P \<Rightarrow> real) \<Rightarrow> f8 \<Rightarrow> f8 \<Rightarrow> f8" where
  "Deco2018_Ii p Se Si = Fin (p P_Jext_i) * Fin (p P_I0) + Fin (p P_J_NMDA) * Se - Si"

definition Deco2018_ye :: "(P \<Rightarrow> real) \<Rightarrow> f8 \<Rightarrow> f8" where
  "Deco2018_ye p Ie =
     (Fin (p P_ae) * Ie - Fin (p P_be)) * (Fin 1 + Fin (p P_receptor) * Fin (p P_w_gain_e))"

definition Deco2018_yi :: "(P \<Rightarrow> real) \<Rightarrow> f8 \<Rightarrow> f8" where
  "Deco2018_yi p Ii =
     (Fin (p P_ai) * Ii - Fin (p P_bi)) * (Fin 1 + Fin (p P_receptor) * Fin (p P_w_gain_i))"

definition Deco2018_dSe :: "(P \<Rightarrow> real) \<Rightarrow> f8 \<Rightarrow> f8 \<Rightarrow> f8" where
  "Deco2018_dSe p Se re =
     (- Se) / Fin (p P_taon) + Fin (p P_gamma_e) * (Fin 1 - Se) * re / Fin 1000"

definition Deco2018_dSi :: "(P \<Rightarrow> real) \<Rightarrow> f8 \<Rightarrow> f8 \<Rightarrow> f8" where
  "Deco2018_dSi p Si ri = (- Si) / Fin (p P_taog) + Fin (p P_gamma_i) * ri / Fin 1000"

text \<open>Lines 96 to 110 on the local vectors \<open>Se\<close>, \<open>Si\<close> and \<open>coupling[0, :]\<close>.\<close>

definition Deco2018_arith ::
  "(P \<Rightarrow> nat \<Rightarrow> real) \<Rightarrow> f8 list \<Rightarrow> f8 list \<Rightarrow> f8 list \<Rightarrow> arr2 \<times> arr2" where
  "Deco2018_arith m Se Si c =
     (let n = length Se;
          p = (\<lambda>j q. m q j);
          Ie = (\<lambda>j. Deco2018_Ie (p j) (Se ! j) (Si ! j) (c ! j));
          Ii = (\<lambda>j. Deco2018_Ii (p j) (Se ! j) (Si ! j));
          re = (\<lambda>j. rate (p j P_de) (Deco2018_ye (p j) (Ie j)));
          ri = (\<lambda>j. rate (p j P_di) (Deco2018_yi (p j) (Ii j)));
          dSe = (\<lambda>j. Deco2018_dSe (p j) (Se ! j) (re j));
          dSi = (\<lambda>j. Deco2018_dSi (p j) (Si ! j) (ri j))
      in ([map dSe [0..<n], map dSi [0..<n]], [map Ie [0..<n], map re [0..<n]]))"

definition Deco2018_dfun :: "(P \<Rightarrow> nat \<Rightarrow> real) \<Rightarrow> arr2 \<Rightarrow> arr2 \<Rightarrow> arr2 \<times> arr2" where
  "Deco2018_dfun m state coupling =
     (let Se = map (np_clip 0 1) (state ! 0);
          Si = map (np_clip 0 1) (state ! 1)
      in Deco2018_arith m Se Si (coupling ! 0))"

definition Deco2018_Ie_at :: "(P \<Rightarrow> nat \<Rightarrow> real) \<Rightarrow> arr2 \<Rightarrow> arr2 \<Rightarrow> nat \<Rightarrow> f8" where
  "Deco2018_Ie_at m state coupling j =
     Deco2018_Ie (\<lambda>q. m q j) (np_clip 0 1 (state ! 0 ! j)) (np_clip 0 1 (state ! 1 ! j))
       (coupling ! 0 ! j)"

definition Deco2018_ye_at :: "(P \<Rightarrow> nat \<Rightarrow> real) \<Rightarrow> arr2 \<Rightarrow> arr2 \<Rightarrow> nat \<Rightarrow> f8" where
  "Deco2018_ye_at m state coupling j =
     Deco2018_ye (\<lambda>q. m q j) (Deco2018_Ie_at m state coupling j)"

text \<open>The defaults of the class attributes (lines 33 to 53), the same for every region.\<close>

fun Deco2018_defaults :: "P \<Rightarrow> nat \<Rightarrow> real" where
  "Deco2018_defaults P_taon j = 100.0"
| "Deco2018_defaults P_taog j = 10.0"
| "Deco2018_defaults P_gamma_e j = 0.641"
| "Deco2018_defaults P_gamma_i j = 1.0"
| "Deco2018_defaults P_I0 j = 0.382"
| "Deco2018_defaults P_w j = 1.4"
| "Deco2018_defaults P_J_NMDA j = 0.15"
| "Deco2018_defaults P_Jext_e j = 1.0"
| "Deco2018_defaults P_Jext_i j = 0.7"
| "Deco2018_defaults P_ae j = 310.0"
| "Deco2018_defaults P_be j = 125.0"
| "Deco2018_defaults P_de j = 0.16"
| "Deco2018_defaults P_ai j = 615.0"
| "Deco2018_defaults P_bi j = 177.0"
| "Deco2018_defaults P_di j = 0.087"
| "Deco2018_defaults P_J j = 1.0"
| "Deco2018_defaults P_I_external j = 0.0"
| "Deco2018_defaults P_receptor j = 0.0"
| "Deco2018_defaults P_w_gain_e j = 0.0"
| "Deco2018_defaults P_w_gain_i j = 0.0"

text \<open>
  The same function with the receptor terms removed: the factors
  \<open>(1.0 + m[receptor] * m[w_gain_e])\<close> and \<open>(1.0 + m[receptor] * m[w_gain_i])\<close> are left out
  of the two arguments of the transfer function, everything else is as above.
\<close>

definition Deco2018_arith_no_receptor ::
  "(P \<Rightarrow> nat \<Rightarrow> real) \<Rightarrow> f8 list \<Rightarrow> f8 list \<Rightarrow> f8 list \<Rightarrow> arr2 \<times> arr2" where
  "Deco2018_arith_no_receptor m Se Si c =
     (let n = length Se;
          p = (\<lambda>j q. m q j);
          Ie = (\<lambda>j. Deco2018_Ie (p j) (Se ! j) (Si ! j) (c ! j));
          Ii = (\<lambda>j. Deco2018_Ii (p j) (Se ! j) (Si ! j));
          re = (\<lambda>j. rate (p j P_de) (Fin (p j P_ae) * Ie j - Fin (p j P_be)));
          ri = (\<lambda>j. rate (p j P_di) (Fin (p j P_ai) * Ii j - Fin (p j P_bi)));
          dSe = (\<lambda>j. Deco2018_dSe (p j) (Se ! j) (re j));
          dSi = (\<lambda>j. Deco2018_dSi (p j) (Si ! j) (ri j))
      in ([map dSe [0..<n], map dSi [0..<n]], [map Ie [0..<n], map re [0..<n]]))"

definition Deco2018_dfun_no_receptor :: "(P \<Rightarrow> nat \<Rightarrow> real) \<Rightarrow> arr2 \<Rightarrow> arr2 \<Rightarrow> arr2 \<times> arr2" where
  "Deco2018_dfun_no_receptor m state coupling =
     (let Se = map (np_clip 0 1) (state ! 0);
          Si = map (np_clip 0 1) (state ! 1)
      in Deco2018_arith_no_receptor m Se Si (coupling ! 0))"

text \<open>
  The third derivative row as the specification words it,
  \<open>dJ = gamma * (r_i / 1000) * (r_e / 1000 - rho)\<close>.
\<close>

definition Naskar2021_dJ_spec :: "(nat \<Rightarrow> real) \<Rightarrow> f8 \<Rightarrow> f8 \<Rightarrow> f8" where
  "Naskar2021_dJ_spec p re ri =
     Fin (p gamma) * (ri / Fin 1000) * (re / Fin 1000 - Fin (p rho))"

section \<open>Tables and states used as concrete inputs\<close>

text \<open>
  A table whose external input equals the threshold current of the excitatory transfer
  function (\<open>I0 = 0.5\<close>, \<open>ae = 250\<close>, \<open>be = 125\<close>, everything else the default): at a silent
  region (\<open>S_e = S_i = 0\<close>, no coupling input) the argument of the transfer function is
  exactly zero. All numbers involved are exact in binary floating point.
\<close>

definition Naskar2021_threshold_table :: "nat \<Rightarrow> nat \<Rightarrow> real" where
  "Naskar2021_threshold_table k j =
     (if k = I0 then 0.5 else if k = ae then 250 else Naskar2021_defaults k j)"

definition Deco2018_threshold_table :: "P \<Rightarrow> nat \<Rightarrow> real" where
  "Deco2018_threshold_table q j =
     (if q = P_I0 then 0.5 else if q = P_ae then 250 else Deco2018_defaults q j)"

definition Naskar2021_silent :: arr2 where
  "Naskar2021_silent = [[Fin 0], [Fin 0], [Fin 1]]"

definition Deco2018_silent :: arr2 where
  "Deco2018_silent = [[Fin 0], [Fin 0]]"

text \<open>One region at the initial state of the model, \<open>S_e = S_i = 0.001\<close> and \<open>J = 1\<close>.\<close>

definition Naskar2021_rest :: arr2 where
  "Naskar2021_rest = [[Fin 0.001], [Fin 0.001], [Fin 1]]"

definition no_coupling :: arr2 where
  "no_coupling = [[Fin 0]]"

text \<open>
  Modelled from the spec: \<open>Model.as_array\<close> is defined in the base class, outside these
  files. The specification has the parameter table built with one row per parameter, a
  single value being broadcast across all region columns; \<open>attrs k j\<close> is the value of
  the attribute with row number \<open>k\<close> at region \<open>j\<close>, the content of \<open>self.as_array(..)\<close>.

  \<open>_init_dependant\<close> (lines 108 to 130) puts these rows into a new array of shape
  \<open>(n_params, n_rois)\<close>. \<open>get_numba_dfun\<close> (lines 146, 147 and 155) wraps the memory of that
  array as a one-dimensional array of \<open>n_params\<close> numbers, \<open>nb.carray(.., (n_params,), ..)\<close>.
  The array of \<open>np.empty\<close> is stored row by row, so entry \<open>k\<close> of the view is the entry in
  row \<open>k div n_rois\<close> and column \<open>k mod n_rois\<close> of the table (for \<open>n_rois \<ge> 1\<close>), and the
  compiled function uses that one number \<open>m[k]\<close> for every region. With one region the
  view holds the attributes themselves.
\<close>

definition Naskar2021_view :: "(nat \<Rightarrow> nat \<Rightarrow> real) \<Rightarrow> nat \<Rightarrow> nat \<Rightarrow> nat \<Rightarrow> real" where
  "Naskar2021_view attrs n_rois k j = attrs (k div n_rois) (k mod n_rois)"

text \<open>The attributes with \<open>gamma\<close> set to zero.\<close>

definition Naskar2021_gamma_zero :: "(nat \<Rightarrow> nat \<Rightarrow> real) \<Rightarrow> nat \<Rightarrow> nat \<Rightarrow> real" where
  "Naskar2021_gamma_zero attrs k j = (if k = gamma then 0 else attrs k j)"

text \<open>
  The fixed-gain equations with \<open>J\<close> held constant, to compare with: the table of the
  fixed-gain model that corresponds to the plasticity parameters \<open>p\<close> of a region and a
  constant feedback weight \<open>Jc\<close>. The decay rates \<open>B_e\<close>, \<open>B_i\<close> become the time constants
  \<open>1 / B_e\<close>, \<open>1 / B_i\<close>, the products \<open>alfa_e * t_glu\<close> and \<open>alfa_i * t_gaba\<close> become
  \<open>gamma_e\<close> and \<open>gamma_i\<close>, the gains \<open>M_e\<close>, \<open>M_i\<close> become the receptor factors
  \<open>1 + receptor * w_gain\<close>, and there is no external current.
\<close>

fun fixed_gain_table :: "(nat \<Rightarrow> real) \<Rightarrow> real \<Rightarrow> P \<Rightarrow> real" where
  "fixed_gain_table p Jc P_taon = 1 / p B_e"
| "fixed_gain_table p Jc P_taog = 1 / p B_i"
| "fixed_gain_table p Jc P_gamma_e = p alfa_e * p t_glu"
| "fixed_gain_table p Jc P_gamma_i = p alfa_i * p t_gaba"
| "fixed_gain_table p Jc P_I0 = p I0"
| "fixed_gain_table p Jc P_w = p w"
| "fixed_gain_table p Jc P_J_NMDA = p J_NMDA"
| "fixed_gain_table p Jc P_Jext_e = p We"
| "fixed_gain_table p Jc P_Jext_i = p Wi"
| "fixed_gain_table p Jc P_ae = p ae"
| "fixed_gain_table p Jc P_be = p be"
| "fixed_gain_table p Jc P_de = p de"
| "fixed_gain_table p Jc P_ai = p ai"
| "fixed_gain_table p Jc P_bi = p bi"
| "fixed_gain_table p Jc P_di = p di"
| "fixed_gain_table p Jc P_J = Jc"
| "fixed_gain_table p Jc P_I_external = 0"
| "fixed_gain_table p Jc P_receptor = 1"
| "fixed_gain_table p Jc P_w_gain_e = p M_e - 1"
| "fixed_gain_table p Jc P_w_gain_i = p M_i - 1"

text \<open>
  The fixed-gain function for the plasticity table \<open>m\<close>, with the weight \<open>Jc j\<close> of region
  \<open>j\<close> held constant, on the rows \<open>S_e\<close> and \<open>S_i\<close> of a plasticity state.
\<close>

definition fixed_gain_dfun :: "(nat \<Rightarrow> nat \<Rightarrow> real) \<Rightarrow> (nat \<Rightarrow> real) \<Rightarrow> arr2 \<Rightarrow> arr2 \<Rightarrow> arr2 \<times> arr2" where
  "fixed_gain_dfun m Jc state coupling =
     Deco2018_dfun (\<lambda>q j. fixed_gain_table (\<lambda>k. m k j) (Jc j) q) [state ! 0, state ! 1] coupling"

text \<open>Two regions at the initial state of the plasticity model, without coupling input.\<close>

definition Naskar2021_rest_two :: arr2 where
  "Naskar2021_rest_two = [[Fin 0.001, Fin 0.001], [Fin 0.001, Fin 0.001], [Fin 1, Fin 1]]"

definition no_coupling_two :: arr2 where
  "no_coupling_two = [[Fin 0, Fin 0]]"

text \<open>The default table with nonzero receptor gains (and \<open>receptor = 0\<close>).\<close>

definition Deco2018_gain_table :: "P \<Rightarrow> nat \<Rightarrow> real" where
  "Deco2018_gain_table q j =
     (if q = P_w_gain_e then 0.2 else if q = P_w_gain_i then 0.1 else Deco2018_defaults q j)"


section \<open>Initial state and initial observables\<close>

text \<open>
  Modelled from the spec: \<open>Model._build_var_dict\<close> is defined in the base class, outside
  these files. The specification gives the state one row per state variable and the
  observables one row per observable, so the dictionary has one entry per listed name
  (the name with its row index), and \<open>len\<close> of it counts the distinct names.
\<close>

definition build_var_dict :: "string list \<Rightarrow> (string \<times> nat) list" where
  "build_var_dict names = zip names [0..<length names]"

definition len_dict :: "(string \<times> nat) list \<Rightarrow> nat" where
  "len_dict d = length (remdups (map fst d))"

definition Naskar2021_n_state_vars :: nat where
  "Naskar2021_n_state_vars = len_dict (build_var_dict [''S_e'', ''S_i'', ''J''])"

definition Naskar2021_n_observable_vars :: nat where
  "Naskar2021_n_observable_vars = len_dict (build_var_dict [''Ie'', ''re''])"

definition Deco2018_n_state_vars :: nat where
  "Deco2018_n_state_vars = len_dict (build_var_dict [''S_e'', ''S_i''])"

definition Deco2018_n_observable_vars :: nat where
  "Deco2018_n_observable_vars = len_dict (build_var_dict [''Ie'', ''re''])"

text \<open>
  \<open>np.empty((r, c))\<close> returns an array of the given shape with arbitrary content; the
  content is the parameter \<open>g\<close>. \<open>a[i] = v\<close> fills row \<open>i\<close> with the number \<open>v\<close> and raises
  IndexError when there is no such row.
\<close>

definition np_empty :: "(nat \<Rightarrow> nat \<Rightarrow> f8) \<Rightarrow> nat \<Rightarrow> nat \<Rightarrow> arr2" where
  "np_empty g r c = map (\<lambda>i. map (g i) [0..<c]) [0..<r]"

definition set_row :: "nat \<Rightarrow> real \<Rightarrow> arr2 \<Rightarrow> error + arr2" where
  "set_row i v a =
     (if i < length a then Inr (a[i := replicate (length (a ! i)) (Fin v)]) else Inl IndexError)"

definition and_then :: "'e + 'a \<Rightarrow> ('a \<Rightarrow> 'e + 'b) \<Rightarrow> 'e + 'b" where
  "and_then r f = (case r of Inl e \<Rightarrow> Inl e | Inr x \<Rightarrow> f x)"

definition Naskar2021_initial_state :: "(nat \<Rightarrow> nat \<Rightarrow> f8) \<Rightarrow> nat \<Rightarrow> error + arr2" where
  "Naskar2021_initial_state g n_rois =
     and_then (set_row 0 0.001 (np_empty g Naskar2021_n_state_vars n_rois)) (\<lambda>state.
     and_then (set_row 1 0.001 state) (\<lambda>state.
     and_then (set_row 2 1.0 state) Inr))"

definition Naskar2021_initial_observed :: "(nat \<Rightarrow> nat \<Rightarrow> f8) \<Rightarrow> nat \<Rightarrow> error + arr2" where
  "Naskar2021_initial_observed g n_rois =
     and_then (set_row 0 0.0 (np_empty g Naskar2021_n_observable_vars n_rois)) (\<lambda>observed.
     and_then (set_row 1 0.0 observed) Inr)"

definition Deco2018_initial_state :: "(nat \<Rightarrow> nat \<Rightarrow> f8) \<Rightarrow> nat \<Rightarrow> error + arr2" where
  "Deco2018_initial_state g n_rois =
     and_then (set_row 0 0.001 (np_empty g Deco2018_n_state_vars n_rois)) (\<lambda>state.
     and_then (set_row 1 0.001 state) Inr)"

definition Deco2018_initial_observed :: "(nat \<Rightarrow> nat \<Rightarrow> f8) \<Rightarrow> nat \<Rightarrow> error + arr2" where
  "Deco2018_initial_observed g n_rois =
     and_then (set_row 0 0.0 (np_empty g Deco2018_n_observable_vars n_rois)) (\<lambda>observed.
     and_then (set_row 1 0.0 observed) Inr)"

section \<open>The two functions on a store of arrays\<close>

text \<open>
  To speak about what a call does to its arguments, arrays live in a store: a list of
  array objects, an address being a position in it. A vector is stored as an array of one
  row. \<open>state[r, :]\<close> is a view, a reference \<open>(a, r)\<close> to row \<open>r\<close> of the object at \<open>a\<close>; it
  shares the memory of \<open>state\<close>. A new array is put at the end of the store.

  \<open>np.clip(x, lo, hi, out=None)\<close> writes its result into \<open>out\<close> when \<open>out\<close> is given and
  into a new array otherwise. Both functions call it without \<open>out\<close> (\<open>np.clip(state[0, :],
  0.0, 1.0)\<close> and \<open>state[0, :].clip(0.0, 1.0)\<close>). The arithmetic operators and \<open>np.stack\<close>
  return new arrays.
\<close>

type_synonym addr = nat
type_synonym store = "arr2 list"
type_synonym view = "addr \<times> nat"

definition alloc :: "arr2 \<Rightarrow> store \<Rightarrow> addr \<times> store" where
  "alloc a h = (length h, h @ [a])"

definition row_of :: "store \<Rightarrow> view \<Rightarrow> f8 list" where
  "row_of h v = h ! fst v ! snd v"

definition np_clip_store :: "view \<Rightarrow> real \<Rightarrow> real \<Rightarrow> view option \<Rightarrow> store \<Rightarrow> view \<times> store" where
  "np_clip_store x lo hi out h =
     (let r = map (np_clip lo hi) (row_of h x) in
      case out of
        None \<Rightarrow> (let (a, h') = alloc [r] h in ((a, 0), h'))
      | Some (a, i) \<Rightarrow> ((a, i), h[a := (h ! a)[i := r]]))"

definition Naskar2021_dfun_store ::
  "(nat \<Rightarrow> nat \<Rightarrow> real) \<Rightarrow> addr \<Rightarrow> addr \<Rightarrow> store \<Rightarrow> (addr \<times> addr) \<times> store" where
  "Naskar2021_dfun_store m state coupling h =
     (let (Se, h1) = np_clip_store (state, 0) 0 1 None h;
          (Si, h2) = np_clip_store (state, 1) 0 1 None h1;
          J = (state, 2);
          (d, obs) = Naskar2021_arith m (row_of h2 Se) (row_of h2 Si) (row_of h2 J)
                       (row_of h2 (coupling, 0));
          (dp, h3) = alloc d h2;
          (op, h4) = alloc obs h3
      in ((dp, op), h4))"

definition Deco2018_dfun_store ::
  "(P \<Rightarrow> nat \<Rightarrow> real) \<Rightarrow> addr \<Rightarrow> addr \<Rightarrow> store \<Rightarrow> (addr \<times> addr) \<times> store" where
  "Deco2018_dfun_store m state coupling h =
     (let (Se, h1) = np_clip_store (state, 0) 0 1 None h;
          (Si, h2) = np_clip_store (state, 1) 0 1 None h1;
          (d, obs) = Deco2018_arith m (row_of h2 Se) (row_of h2 Si) (row_of h2 (coupling, 0));
          (dp, h3) = alloc d h2;
          (op, h4) = alloc obs h3
      in ((dp, op), h4))"


section \<open>Convolution and Gaussian smoothing (filterps.py)\<close>

text \<open>
  \<open>np.convolve(u, v, 'full')\<close>: entry \<open>k\<close> is the sum of the products \<open>u[i] * v[k - i]\<close>
  over the indices where both factors exist. It raises ValueError when one of the two
  vectors is empty.
\<close>

definition f8_sum :: "f8 list \<Rightarrow> f8" where
  "f8_sum xs = foldl (+) (Fin 0) xs"

definition np_convolve_full :: "f8 list \<Rightarrow> f8 list \<Rightarrow> error + f8 list" where
  "np_convolve_full u v =
     (if u = [] \<or> v = [] then Inl ValueError
      else Inr (map (\<lambda>k. f8_sum (map (\<lambda>i. u ! i * v ! (k - i))
                                   [k + 1 - length v..<min (Suc k) (length u)]))
                 [0..<length u + length v - 1]))"

text \<open>
  \<open>conv\<close> (lines 11 to 16). \<open>npad\<close> is used only after \<open>np.convolve\<close> has returned, that is
  for a nonempty \<open>v\<close>, where \<open>len(v) - 1\<close> is a natural number. The slice
  \<open>full[first:first + len(u)]\<close> drops \<open>first\<close> entries and takes the next \<open>len(u)\<close>.
\<close>

definition conv :: "f8 list \<Rightarrow> f8 list \<Rightarrow> error + f8 list" where
  "conv u v =
     (let npad = length v - 1 in
      and_then (np_convolve_full u v) (\<lambda>full.
        let first = npad - npad div 2 in
        Inr (take (length u) (drop first full))))"

text \<open>
  \<open>gaussfilt\<close> (lines 19 to 50). The positions \<open>t\<close> are finite numbers, the data \<open>z\<close> are
  array values. \<open>np.diff(t)[0]\<close> raises IndexError for fewer than two positions;
  \<open>np.delete(filter, i)\<close> with the boolean mask \<open>i\<close> keeps the entries where the mask is
  false. A standard deviation of zero is not modelled (the program passes \<open>0.01\<close>).
\<close>

definition gaussfilt :: "real list \<Rightarrow> f8 list \<Rightarrow> real \<Rightarrow> error + f8 list" where
  "gaussfilt t z sigma =
     (if sigma = 0 then Inl Unmodelled
      else if length t < 2 then Inl IndexError
      else (let a = 1 / (sqrt (2 * pi) * sigma);
                sigma2 = sigma * sigma;
                dt = t ! 1 - t ! 0;
                mean_t = sum_list t / real (length t);
                filter0 = map (\<lambda>x. dt * a * exp (- 0.5 * ((x - mean_t) ^ 2) / sigma2)) t;
                filter1 = filter (\<lambda>x. \<not> x < dt * a * (1 / 1000000)) filter0
            in and_then (conv z (map Fin filter1)) (\<lambda>zfilt.
               and_then (conv (replicate (length z) (Fin 1)) (map Fin filter1)) (\<lambda>onesFilt.
               Inr (map2 (/) zfilt onesFilt)))))"

section \<open>The power spectrum (filterps.py)\<close>

text \<open>
  A time series is a list of rows of finite numbers, regions by time. The band-pass filter
  is the function \<open>bpf.filter\<close>, supplied by the caller; an argument that is not passed is
  \<open>None\<close>, and since \<open>def filt_pow_spetra(signal, TR, bpf)\<close> gives \<open>bpf\<close> no default, a call
  without it raises TypeError before the body runs. The transpose of a list of rows:
\<close>

type_synonym rarr2 = "real list list"

definition np_T :: "'a list list \<Rightarrow> 'a list list" where
  "np_T a = (if a = [] then [] else map (\<lambda>t. map (\<lambda>r. r ! t) a) [0..<length (a ! 0)])"

text \<open>An array of \<open>r\<close> rows with \<open>c\<close> entries each.\<close>

definition is_arr2 :: "nat \<Rightarrow> nat \<Rightarrow> 'a list list \<Rightarrow> bool" where
  "is_arr2 r c a \<longleftrightarrow> length a = r \<and> list_all (\<lambda>row. length row = c) a"

text \<open>
  The discrete Fourier transform of \<open>np.fft.fft\<close> and its absolute value along one row.
  \<open>np.fft.fft\<close> raises ValueError on a row without data points.
\<close>

definition dft :: "real list \<Rightarrow> nat \<Rightarrow> complex" where
  "dft x k =
     (\<Sum>n\<leftarrow>[0..<length x]. of_real (x ! n) * cis (- 2 * pi * real k * real n / real (length x)))"

definition np_abs_fft :: "real list \<Rightarrow> real list" where
  "np_abs_fft x = map (\<lambda>k. cmod (dft x k)) [0..<length x]"

text \<open>
  \<open>filt_pow_spetra\<close> (lines 53 to 79). \<open>Tmax / TR\<close> divides two Python numbers and raises
  ZeroDivisionError for \<open>TR = 0\<close>; the division of the array by that number follows
  IEEE 754. The result has one row per frequency bin and one column per region.
\<close>

definition filt_pow_spetra :: "rarr2 \<Rightarrow> real \<Rightarrow> (rarr2 \<Rightarrow> rarr2) option \<Rightarrow> error + arr2" where
  "filt_pow_spetra signal TR bpf =
     (case bpf of
        None \<Rightarrow> Inl TypeError
      | Some bpf_filter \<Rightarrow>
          if signal = [] \<or> signal ! 0 = [] then Inl Unmodelled
          else (let Tmax = length (signal ! 0);
                    ts_filt_narrow = np_T (bpf_filter (np_T signal))
                in if list_ex (\<lambda>r. r = []) ts_filt_narrow then Inl ValueError
                   else (let pw_filt_narrow = map np_abs_fft ts_filt_narrow in
                         if TR = 0 then Inl ZeroDivisionError
                         else Inr (map (map (\<lambda>x. Fin (x ^ 2) / Fin (real Tmax / TR)))
                                    (np_T (map (take (Tmax div 2)) pw_filt_narrow))))))"

text \<open>
  The normalisation as the specification words it: every squared magnitude divided by
  \<open>(Tmax / 2) / TR\<close>.
\<close>

definition PowSpect_spec :: "rarr2 \<Rightarrow> real \<Rightarrow> (rarr2 \<Rightarrow> rarr2) \<Rightarrow> nat \<Rightarrow> nat \<Rightarrow> f8" where
  "PowSpect_spec signal TR bpf_filter k i =
     Fin ((cmod (dft (np_T (bpf_filter (np_T signal)) ! i) k)) ^ 2)
       / Fin ((real (length (signal ! 0)) / 2) / TR)"

text \<open>
  The argument of \<open>filt_pow_spetra_multiple_subjects\<close>: a dictionary of named subjects
  (in insertion order, the names distinct), one two-dimensional array, or a
  three-dimensional array given by its slices along the first axis.
\<close>

datatype spectra_input = Subjects "(string \<times> rarr2) list" | Single rarr2 | Stacked "rarr2 list"

text \<open>
  \<open>PowSpect_filt_narrow[i] = v\<close>: the value is broadcast to the shape of the target block,
  or ValueError is raised. An empty \<open>v\<close> stands for an array with an axis of length zero.
\<close>

definition broadcast_assign :: "nat \<times> nat \<Rightarrow> arr2 \<Rightarrow> error + arr2" where
  "broadcast_assign shp v =
     (if v = [] then Inl Unmodelled
      else (let R = fst shp; C = snd shp; r = length v; c = length (v ! 0) in
            if (r = R \<or> r = 1) \<and> (c = C \<or> c = 1)
            then Inr (map (\<lambda>i. map (\<lambda>j. v ! (if r = 1 then 0 else i) ! (if c = 1 then 0 else j))
                                  [0..<C]) [0..<R])
            else Inl ValueError))"

text \<open>The loop over the subjects; the first error ends it.\<close>

fun fill_PowSpect :: "nat \<times> nat \<Rightarrow> real \<Rightarrow> (rarr2 \<Rightarrow> rarr2) \<Rightarrow> rarr2 list \<Rightarrow> error + arr2 list" where
  "fill_PowSpect shp tr bpf_filter [] = Inr []"
| "fill_PowSpect shp tr bpf_filter (x # xs) =
     and_then (filt_pow_spetra x tr (Some bpf_filter)) (\<lambda>ps.
     and_then (broadcast_assign shp (np_T ps)) (\<lambda>block.
     and_then (fill_PowSpect shp tr bpf_filter xs) (\<lambda>rest. Inr (block # rest))))"

text \<open>\<open>np.mean(PowSpect_filt_narrow, axis=0)\<close> for blocks of shape \<open>shp\<close>.\<close>

definition np_mean_axis0 :: "nat \<times> nat \<Rightarrow> arr2 list \<Rightarrow> arr2" where
  "np_mean_axis0 shp blocks =
     map (\<lambda>i. map (\<lambda>j. f8_sum (map (\<lambda>b. b ! i ! j) blocks) / Fin (real (length blocks)))
                [0..<snd shp]) [0..<fst shp]"

text \<open>
  Lines 83 to 100: the three branches, each giving \<open>n_nodes\<close>, \<open>tmax\<close> and
  \<open>Power_Areas_filt_narrow_unsmoothed\<close>.
\<close>

definition Power_Areas_filt_narrow_unsmoothed ::
  "spectra_input \<Rightarrow> real \<Rightarrow> (rarr2 \<Rightarrow> rarr2) \<Rightarrow> error + (nat \<times> nat \<times> arr2)" where
  "Power_Areas_filt_narrow_unsmoothed signal tr bpf_filter =
     (case signal of
        Subjects d \<Rightarrow>
          (case d of
             [] \<Rightarrow> Inl StopIteration
           | first # _ \<Rightarrow>
               if snd first = [] then Inl Unmodelled
               else (let n_nodes = length (snd first); tmax = length (snd first ! 0);
                         shp = (n_nodes, tmax div 2)
                     in and_then (fill_PowSpect shp tr bpf_filter
                                    (map (\<lambda>s. map (take tmax) (snd s)) d)) (\<lambda>PowSpect.
                        Inr (n_nodes, tmax, np_T (np_mean_axis0 shp PowSpect)))))
      | Single a \<Rightarrow>
          and_then (filt_pow_spetra a tr None) (\<lambda>ps. Inr (length a, length (a ! 0), ps))
      | Stacked subs \<Rightarrow>
          (case subs of
             [] \<Rightarrow> Inl Unmodelled
           | first # _ \<Rightarrow>
               if first = [] then Inl Unmodelled
               else (let n_nodes = length first; tmax = length (first ! 0);
                         shp = (n_nodes, tmax div 2)
                     in and_then (fill_PowSpect shp tr bpf_filter subs) (\<lambda>PowSpect.
                        Inr (n_nodes, tmax, np_T (np_mean_axis0 shp PowSpect))))))"

text \<open>
  \<open>np.argmax\<close> of a vector: the first index of the greatest entry, a NaN counting as
  greatest; ValueError on an empty vector.
\<close>

fun f8_less :: "f8 \<Rightarrow> f8 \<Rightarrow> bool" where
  "f8_less (Fin x) (Fin y) = (x < y)"
| "f8_less (Fin x) PInf = True"
| "f8_less NInf (Fin y) = True"
| "f8_less NInf PInf = True"
| "f8_less a b = False"

fun argmax_from :: "nat \<Rightarrow> f8 \<Rightarrow> nat \<Rightarrow> f8 list \<Rightarrow> nat" where
  "argmax_from best bv i [] = best"
| "argmax_from best bv i (x # xs) =
     (if bv \<noteq> NaN \<and> (x = NaN \<or> f8_less bv x) then argmax_from i x (Suc i) xs
      else argmax_from best bv (Suc i) xs)"

definition np_argmax :: "f8 list \<Rightarrow> error + nat" where
  "np_argmax xs = (case xs of [] \<Rightarrow> Inl ValueError | x # rest \<Rightarrow> Inr (argmax_from 0 x 1 rest))"

text \<open>Results in order; the first error wins.\<close>

fun collect :: "('e + 'a) list \<Rightarrow> 'e + 'a list" where
  "collect [] = Inr []"
| "collect (r # rs) = and_then r (\<lambda>x. and_then (collect rs) (\<lambda>xs. Inr (x # xs)))"

text \<open>
  Lines 103 to 121. \<open>np.arange(0, tmax / 2 - 1)\<close> has \<open>(tmax + 1) div 2 - 1\<close> entries
  \<open>0, 1, ...\<close>. The division by \<open>Ts\<close> is reached only after a call of \<open>filt_pow_spetra\<close>
  has returned, hence with \<open>tr \<noteq> 0\<close>.
\<close>

definition f_diff :: "nat \<Rightarrow> nat \<Rightarrow> real \<Rightarrow> arr2 \<Rightarrow> error + real list" where
  "f_diff n_nodes tmax tr unsmoothed =
     (if tr = 0 then Inl Unmodelled
      else (let Ts = real tmax * tr;
                freqs = map (\<lambda>k. real k / Ts) [0..<(tmax + 1) div 2 - 1]
            in and_then (collect (map (\<lambda>seed. gaussfilt freqs (map (\<lambda>row. row ! seed) unsmoothed)
                                                 0.01) [0..<n_nodes])) (\<lambda>smoothed.
               and_then (collect (map np_argmax smoothed)) (\<lambda>idxFreqOfMaxPwr.
               collect (map (\<lambda>i. if i < length freqs then Inr (freqs ! i) else Inl IndexError)
                          idxFreqOfMaxPwr)))))"

definition filt_pow_spetra_multiple_subjects ::
  "spectra_input \<Rightarrow> real \<Rightarrow> (rarr2 \<Rightarrow> rarr2) \<Rightarrow> error + real list" where
  "filt_pow_spetra_multiple_subjects signal tr bpf_filter =
     and_then (Power_Areas_filt_narrow_unsmoothed signal tr bpf_filter) (\<lambda>r.
       f_diff (fst r) (fst (snd r)) tr (snd (snd r)))"


text \<open>
  A dictionary of two subjects with one region each, the first recording six samples
  long and the second four.
\<close>

definition two_subjects :: spectra_input where
  "two_subjects = Subjects [(''a'', [[1, 0, 0, 0, 0, 0]]), (''b'', [[1, 0, 0, 0]])]"

section \<open>Facts about the arithmetic\<close>

lemmas Naskar2021_rows =
  t_glu_def t_gaba_def We_def Wi_def I0_def w_def J_NMDA_def M_e_def ae_def be_def de_def
  M_i_def ai_def bi_def di_def alfa_i_def alfa_e_def B_e_def B_i_def gamma_def rho_def

lemma f8_mul_one: "x * Fin 1 = (x::f8)"
  by (cases x) simp_all

lemma f8_zero_add: "Fin 0 + x = (x::f8)"
  by (cases x) simp_all

lemma rate_Fin:
  "rate d (Fin y) =
     (if y = 0 then NaN else if d = 0 then (if 0 < y then PInf else NInf)
      else Fin (y / (1 - exp (- (d * y)))))"
  by (simp add: rate_def minus_f8_def)

lemma rate_nonzero:
  assumes "y \<noteq> 0" and "d \<noteq> 0"
  shows "\<exists>r. rate d (Fin y) = Fin r \<and> r \<noteq> 0"
  using assms by (simp add: rate_Fin)

lemma dJ_regroup:
  "Fin g * ri / Fin 1000 * (re - Fin r) / Fin 1000 =
   Fin g * (ri / Fin 1000) * ((re - Fin r) / Fin 1000)"
  by (cases ri; cases re) (simp_all add: minus_f8_def)

lemma dJ_gamma_zero:
  "is_finite re \<Longrightarrow> is_finite ri \<Longrightarrow> Fin 0 * ri / Fin 1000 * (re - Fin r) / Fin 1000 = Fin 0"
  by (cases ri; cases re) (simp_all add: minus_f8_def)

section \<open>The rows of the results, region by region\<close>

lemma dfun_shapes_rows:
  assumes "dfun_shapes nv n state coupling"
  shows "\<And>r. r < nv \<Longrightarrow> length (state ! r) = n" and "length (coupling ! 0) = n"
  using assms by (auto simp add: dfun_shapes_def list_all_length neq_Nil_conv)

lemma Naskar2021_dfun_nth:
  assumes "dfun_shapes 3 n state coupling" and "j < n"
  shows "fst (Naskar2021_dfun m state coupling) ! 2 ! j =
           Naskar2021_dJ (\<lambda>k. m k j) (Naskar2021_re_at m state coupling j)
             (Naskar2021_ri_at m state j)"
    and "snd (Naskar2021_dfun m state coupling) ! 0 ! j = Naskar2021_Ie_at m state coupling j"
    and "snd (Naskar2021_dfun m state coupling) ! 1 ! j = Naskar2021_re_at m state coupling j"
proof -
  have len: "length (state ! 0) = n" "length (state ! 1) = n"
    using dfun_shapes_rows(1) [OF assms(1)] by simp_all
  show "fst (Naskar2021_dfun m state coupling) ! 2 ! j =
           Naskar2021_dJ (\<lambda>k. m k j) (Naskar2021_re_at m state coupling j)
             (Naskar2021_ri_at m state j)"
    using len assms(2)
    by (simp add: Naskar2021_dfun_def Naskar2021_arith_def Let_def Naskar2021_re_at_def
        Naskar2021_ri_at_def Naskar2021_ye_at_def Naskar2021_yi_at_def Naskar2021_Ie_at_def)
  show "snd (Naskar2021_dfun m state coupling) ! 0 ! j = Naskar2021_Ie_at m state coupling j"
    using len assms(2)
    by (simp add: Naskar2021_dfun_def Naskar2021_arith_def Let_def Naskar2021_Ie_at_def)
  show "snd (Naskar2021_dfun m state coupling) ! 1 ! j = Naskar2021_re_at m state coupling j"
    using len assms(2)
    by (simp add: Naskar2021_dfun_def Naskar2021_arith_def Let_def Naskar2021_re_at_def
        Naskar2021_ye_at_def Naskar2021_Ie_at_def)
qed

lemma Deco2018_dfun_nth:
  assumes "dfun_shapes 2 n state coupling" and "j < n"
  shows "snd (Deco2018_dfun m state coupling) ! 0 ! j = Deco2018_Ie_at m state coupling j"
    and "snd (Deco2018_dfun m state coupling) ! 1 ! j =
           rate (m P_de j) (Deco2018_ye_at m state coupling j)"
proof -
  have len: "length (state ! 0) = n" "length (state ! 1) = n"
    using dfun_shapes_rows(1) [OF assms(1)] by simp_all
  show "snd (Deco2018_dfun m state coupling) ! 0 ! j = Deco2018_Ie_at m state coupling j"
    using len assms(2)
    by (simp add: Deco2018_dfun_def Deco2018_arith_def Let_def Deco2018_Ie_at_def)
  show "snd (Deco2018_dfun m state coupling) ! 1 ! j =
           rate (m P_de j) (Deco2018_ye_at m state coupling j)"
    using len assms(2)
    by (simp add: Deco2018_dfun_def Deco2018_arith_def Let_def Deco2018_ye_at_def
        Deco2018_Ie_at_def)
qed

section \<open>The concrete inputs\<close>

lemma silent_shapes:
  "dfun_shapes 3 1 Naskar2021_silent no_coupling"
  "dfun_shapes 2 1 Deco2018_silent no_coupling"
  by (simp_all add: dfun_shapes_def Naskar2021_silent_def Deco2018_silent_def no_coupling_def)

lemma Naskar2021_threshold_ye:
  "Naskar2021_ye_at Naskar2021_threshold_table Naskar2021_silent no_coupling 0 = Fin 0"
  by (simp add: Naskar2021_ye_at_def Naskar2021_Ie_at_def Naskar2021_ye_def Naskar2021_Ie_def
      Naskar2021_threshold_table_def Naskar2021_defaults_def Naskar2021_silent_def
      no_coupling_def Naskar2021_rows minus_f8_def)

lemma Deco2018_threshold_ye:
  "Deco2018_ye_at Deco2018_threshold_table Deco2018_silent no_coupling 0 = Fin 0"
  by (simp add: Deco2018_ye_at_def Deco2018_Ie_at_def Deco2018_ye_def Deco2018_Ie_def
      Deco2018_threshold_table_def Deco2018_silent_def no_coupling_def minus_f8_def)

lemma Naskar2021_rest_rates:
  "\<exists>a b. Naskar2021_re_at Naskar2021_defaults Naskar2021_rest no_coupling 0 = Fin a \<and>
         Naskar2021_ri_at Naskar2021_defaults Naskar2021_rest 0 = Fin b \<and> b \<noteq> 0"
proof -
  have ye: "Naskar2021_ye_at Naskar2021_defaults Naskar2021_rest no_coupling 0 = Fin (- 6.8249)"
    by (simp add: Naskar2021_ye_at_def Naskar2021_Ie_at_def Naskar2021_ye_def Naskar2021_Ie_def
        Naskar2021_defaults_def Naskar2021_rest_def no_coupling_def Naskar2021_rows minus_f8_def)
  have yi: "Naskar2021_yi_at Naskar2021_defaults Naskar2021_rest 0 = Fin (- 13.07175)"
    by (simp add: Naskar2021_yi_at_def Naskar2021_yi_def Naskar2021_Ii_def
        Naskar2021_defaults_def Naskar2021_rest_def Naskar2021_rows minus_f8_def)
  have "\<exists>a. rate 0.16 (Fin (- 6.8249)) = Fin a \<and> a \<noteq> 0"
    by (rule rate_nonzero) simp_all
  moreover have "\<exists>b. rate 0.087 (Fin (- 13.07175)) = Fin b \<and> b \<noteq> 0"
    by (rule rate_nonzero) simp_all
  ultimately show ?thesis
    by (auto simp add: Naskar2021_re_at_def Naskar2021_ri_at_def ye yi
        Naskar2021_defaults_def Naskar2021_rows)
qed

lemma Naskar2021_rest_shapes: "dfun_shapes 3 1 Naskar2021_rest no_coupling"
  by (simp add: dfun_shapes_def Naskar2021_rest_def no_coupling_def)

text \<open>
  Claim C1, as amended. At the removable singularity of the transfer function (argument
  exactly zero) the computed rate is NaN, the value of \<open>0 / 0\<close>: so for the expression
  itself and for the firing-rate row that either model returns.
\<close>

theorem rate_at_singularity_is_NaN:
  "rate d (Fin 0) = NaN
   \<and> (dfun_shapes 3 n state coupling \<and> j < n \<and> Naskar2021_ye_at m state coupling j = Fin 0
      \<longrightarrow> snd (Naskar2021_dfun m state coupling) ! 1 ! j = NaN)
   \<and> (dfun_shapes 2 n' state' coupling' \<and> j' < n' \<and> Deco2018_ye_at m' state' coupling' j' = Fin 0
      \<longrightarrow> snd (Deco2018_dfun m' state' coupling') ! 1 ! j' = NaN)"
proof (intro conjI impI)
  show "rate d (Fin 0) = NaN"
    by (simp add: rate_Fin)
next
  assume a: "dfun_shapes 3 n state coupling \<and> j < n \<and> Naskar2021_ye_at m state coupling j = Fin 0"
  then have "snd (Naskar2021_dfun m state coupling) ! 1 ! j = Naskar2021_re_at m state coupling j"
    using Naskar2021_dfun_nth(3) by blast
  with a show "snd (Naskar2021_dfun m state coupling) ! 1 ! j = NaN"
    by (simp add: Naskar2021_re_at_def rate_Fin)
next
  assume a: "dfun_shapes 2 n' state' coupling' \<and> j' < n'
    \<and> Deco2018_ye_at m' state' coupling' j' = Fin 0"
  then have "snd (Deco2018_dfun m' state' coupling') ! 1 ! j' =
      rate (m' P_de j') (Deco2018_ye_at m' state' coupling' j')"
    using Deco2018_dfun_nth(2) by blast
  with a show "snd (Deco2018_dfun m' state' coupling') ! 1 ! j' = NaN"
    by (simp add: rate_Fin)
qed

theorem rate_at_singularity_is_NaN_witness:
  "snd (Naskar2021_dfun Naskar2021_threshold_table Naskar2021_silent no_coupling) ! 1 ! 0 = NaN
   \<and> snd (Deco2018_dfun Deco2018_threshold_table Deco2018_silent no_coupling) ! 1 ! 0 = NaN"
  using rate_at_singularity_is_NaN [of _ 1 Naskar2021_silent no_coupling 0
      Naskar2021_threshold_table 1 Deco2018_silent no_coupling 0 Deco2018_threshold_table]
    Naskar2021_threshold_ye Deco2018_threshold_ye silent_shapes
  by simp

theorem rate_at_singularity_counterexample:
  "Naskar2021_ye_at Naskar2021_threshold_table Naskar2021_silent no_coupling 0 = Fin 0
   \<and> snd (Naskar2021_dfun Naskar2021_threshold_table Naskar2021_silent no_coupling) ! 1 ! 0
       \<noteq> Fin (1 / Naskar2021_threshold_table de 0)
   \<and> Deco2018_ye_at Deco2018_threshold_table Deco2018_silent no_coupling 0 = Fin 0
   \<and> snd (Deco2018_dfun Deco2018_threshold_table Deco2018_silent no_coupling) ! 1 ! 0
       \<noteq> Fin (1 / Deco2018_threshold_table P_de 0)"
proof -
  have "snd (Naskar2021_dfun Naskar2021_threshold_table Naskar2021_silent no_coupling) ! 1 ! 0
          = NaN"
    using Naskar2021_dfun_nth(3) [OF silent_shapes(1), of 0 Naskar2021_threshold_table]
    by (simp add: Naskar2021_re_at_def Naskar2021_threshold_ye rate_Fin)
  moreover have "snd (Deco2018_dfun Deco2018_threshold_table Deco2018_silent no_coupling) ! 1 ! 0
          = NaN"
    using Deco2018_dfun_nth(2) [OF silent_shapes(2), of 0 Deco2018_threshold_table]
    by (simp add: Deco2018_threshold_ye rate_Fin)
  ultimately show ?thesis
    by (simp add: Naskar2021_threshold_ye Deco2018_threshold_ye)
qed

text \<open>
  Claim C3, as amended. In every region the third derivative row is
  \<open>gamma * (r_i / 1000) * ((r_e - rho) / 1000)\<close>, with \<open>r_e\<close> the firing-rate row returned
  by the same call and \<open>r_i\<close> the inhibitory rate of the same call: the target rate \<open>rho\<close>
  is subtracted before the division by 1000, not after it.
\<close>

theorem plasticity_row:
  "dfun_shapes 3 n state coupling \<and> j < n \<longrightarrow>
   fst (Naskar2021_dfun m state coupling) ! 2 ! j =
     Fin (m gamma j) * (Naskar2021_ri_at m state j / Fin 1000)
       * ((snd (Naskar2021_dfun m state coupling) ! 1 ! j - Fin (m rho j)) / Fin 1000)"
proof
  assume a: "dfun_shapes 3 n state coupling \<and> j < n"
  then have "fst (Naskar2021_dfun m state coupling) ! 2 ! j =
      Naskar2021_dJ (\<lambda>k. m k j) (Naskar2021_re_at m state coupling j) (Naskar2021_ri_at m state j)"
    and "snd (Naskar2021_dfun m state coupling) ! 1 ! j = Naskar2021_re_at m state coupling j"
    using Naskar2021_dfun_nth(1,3) by blast+
  then show "fst (Naskar2021_dfun m state coupling) ! 2 ! j =
     Fin (m gamma j) * (Naskar2021_ri_at m state j / Fin 1000)
       * ((snd (Naskar2021_dfun m state coupling) ! 1 ! j - Fin (m rho j)) / Fin 1000)"
    by (simp only: Naskar2021_dJ_def dJ_regroup)
qed

theorem plasticity_row_witness:
  "fst (Naskar2021_dfun Naskar2021_defaults Naskar2021_rest no_coupling) ! 2 ! 0 =
     Fin 1 * (Naskar2021_ri_at Naskar2021_defaults Naskar2021_rest 0 / Fin 1000)
       * ((snd (Naskar2021_dfun Naskar2021_defaults Naskar2021_rest no_coupling) ! 1 ! 0 - Fin 3)
            / Fin 1000)"
  using plasticity_row [of 1 Naskar2021_rest no_coupling 0 Naskar2021_defaults]
    Naskar2021_rest_shapes
  by (simp add: Naskar2021_defaults_def Naskar2021_rows)

theorem plasticity_row_counterexample:
  "fst (Naskar2021_dfun Naskar2021_defaults Naskar2021_rest no_coupling) ! 2 ! 0 \<noteq>
   Naskar2021_dJ_spec (\<lambda>k. Naskar2021_defaults k 0)
     (snd (Naskar2021_dfun Naskar2021_defaults Naskar2021_rest no_coupling) ! 1 ! 0)
     (Naskar2021_ri_at Naskar2021_defaults Naskar2021_rest 0)"
proof -
  obtain a b where re: "Naskar2021_re_at Naskar2021_defaults Naskar2021_rest no_coupling 0 = Fin a"
    and ri: "Naskar2021_ri_at Naskar2021_defaults Naskar2021_rest 0 = Fin b" and b: "b \<noteq> 0"
    using Naskar2021_rest_rates by blast
  have obs: "snd (Naskar2021_dfun Naskar2021_defaults Naskar2021_rest no_coupling) ! 1 ! 0 = Fin a"
    using Naskar2021_dfun_nth(3) [OF Naskar2021_rest_shapes, of 0 Naskar2021_defaults] re
    by simp
  have "fst (Naskar2021_dfun Naskar2021_defaults Naskar2021_rest no_coupling) ! 2 ! 0 =
        Naskar2021_dJ (\<lambda>k. Naskar2021_defaults k 0) (Fin a) (Fin b)"
    using Naskar2021_dfun_nth(1) [OF Naskar2021_rest_shapes, of 0 Naskar2021_defaults] re ri
    by simp
  also have "\<dots> = Fin (b / 1000 * (a - 3) / 1000)"
    by (simp add: Naskar2021_dJ_def minus_f8_def Naskar2021_defaults_def Naskar2021_rows)
  finally have code: "fst (Naskar2021_dfun Naskar2021_defaults Naskar2021_rest no_coupling) ! 2 ! 0
      = Fin (b / 1000 * (a - 3) / 1000)" .
  have spec: "Naskar2021_dJ_spec (\<lambda>k. Naskar2021_defaults k 0) (Fin a) (Fin b) =
        Fin (b / 1000 * (a / 1000 - 3))"
    by (simp add: Naskar2021_dJ_spec_def minus_f8_def Naskar2021_defaults_def Naskar2021_rows)
  have "b / 1000 * (a - 3) / 1000 \<noteq> b / 1000 * (a / 1000 - 3)"
    using b by (simp add: field_simps)
  then show ?thesis unfolding code obs ri spec by simp
qed

text \<open>
  Claim C8. With \<open>receptor = 0\<close> in every region the fixed-gain function returns exactly
  what the function without the receptor terms returns, for every state and coupling.
\<close>

theorem receptor_zero_is_no_op:
  "(\<forall>j. m P_receptor j = 0) \<Longrightarrow>
   Deco2018_dfun m state coupling = Deco2018_dfun_no_receptor m state coupling"
  by (simp add: Deco2018_dfun_def Deco2018_dfun_no_receptor_def Deco2018_arith_def
      Deco2018_arith_no_receptor_def Deco2018_ye_def Deco2018_yi_def f8_mul_one Let_def)

theorem receptor_zero_is_no_op_witness:
  "Deco2018_dfun Deco2018_gain_table [[Fin 0.001], [Fin 0.001]] no_coupling =
   Deco2018_dfun_no_receptor Deco2018_gain_table [[Fin 0.001], [Fin 0.001]] no_coupling"
  using receptor_zero_is_no_op [of Deco2018_gain_table "[[Fin 0.001], [Fin 0.001]]" no_coupling]
  by (simp add: Deco2018_gain_table_def)

lemma n_vars [simp]:
  "Naskar2021_n_state_vars = 3" "Naskar2021_n_observable_vars = 2"
  "Deco2018_n_state_vars = 2" "Deco2018_n_observable_vars = 2"
  by (simp_all add: Naskar2021_n_state_vars_def Naskar2021_n_observable_vars_def
      Deco2018_n_state_vars_def Deco2018_n_observable_vars_def len_dict_def build_var_dict_def)

lemma upt_3: "[0..<3] = [0, 1, 2]"
  by code_simp

lemma upt_2: "[0..<2] = [0, 1]"
  by code_simp

lemma np_empty_3: "np_empty g 3 c = [map (g 0) [0..<c], map (g 1) [0..<c], map (g 2) [0..<c]]"
  by (simp add: np_empty_def upt_3)

lemma np_empty_2: "np_empty g 2 c = [map (g 0) [0..<c], map (g 1) [0..<c]]"
  by (simp add: np_empty_def upt_2)

text \<open>
  Claim C10. For every number of regions, and whatever \<open>np.empty\<close> leaves in the new
  array, the initial state of the plasticity model has the three rows \<open>0.001\<close>, \<open>0.001\<close>
  and \<open>1.0\<close>, the initial state of the fixed-gain model the two rows \<open>0.001\<close> and \<open>0.001\<close>,
  and the initial observables of both are two rows of zeros, every row with one entry per
  region.
\<close>

theorem initial_arrays:
  "Naskar2021_initial_state g n =
     Inr [replicate n (Fin 0.001), replicate n (Fin 0.001), replicate n (Fin 1)]
   \<and> Deco2018_initial_state g n = Inr [replicate n (Fin 0.001), replicate n (Fin 0.001)]
   \<and> Naskar2021_initial_observed g n = Inr [replicate n (Fin 0), replicate n (Fin 0)]
   \<and> Deco2018_initial_observed g n = Inr [replicate n (Fin 0), replicate n (Fin 0)]"
  by (simp add: Naskar2021_initial_state_def Deco2018_initial_state_def
      Naskar2021_initial_observed_def Deco2018_initial_observed_def and_then_def set_row_def
      np_empty_3 np_empty_2)

lemma store_after_allocs:
  assumes "a < length h"
  shows "(h @ xs) ! a = h ! a"
  using assms by (simp add: nth_append)

lemma Naskar2021_dfun_store_eq:
  assumes "state < length h" and "coupling < length h"
  shows "Naskar2021_dfun_store m state coupling h =
     ((length h + 2, length h + 3),
      h @ [[map (np_clip 0 1) (h ! state ! 0)], [map (np_clip 0 1) (h ! state ! 1)],
           fst (Naskar2021_dfun m (h ! state) (h ! coupling)),
           snd (Naskar2021_dfun m (h ! state) (h ! coupling))])"
  using assms
  by (simp add: Naskar2021_dfun_store_def Naskar2021_dfun_def np_clip_store_def alloc_def
      row_of_def Let_def nth_append split_beta)

lemma Deco2018_dfun_store_eq:
  assumes "state < length h" and "coupling < length h"
  shows "Deco2018_dfun_store m state coupling h =
     ((length h + 2, length h + 3),
      h @ [[map (np_clip 0 1) (h ! state ! 0)], [map (np_clip 0 1) (h ! state ! 1)],
           fst (Deco2018_dfun m (h ! state) (h ! coupling)),
           snd (Deco2018_dfun m (h ! state) (h ! coupling))])"
  using assms
  by (simp add: Deco2018_dfun_store_def Deco2018_dfun_def np_clip_store_def alloc_def
      row_of_def Let_def nth_append split_beta)

text \<open>
  Claim C6. A call of either function on arrays of the store leaves every array that
  existed before the call as it was, the state and the coupling among them; the clipped
  vectors and the two results are new arrays, and the results hold what the function
  computes from the unchanged arguments.
\<close>

theorem dfun_leaves_arguments:
  "state < length h \<and> coupling < length h \<longrightarrow>
     (let r = Naskar2021_dfun_store m state coupling h; h' = snd r in
        h' ! state = h ! state \<and> h' ! coupling = h ! coupling \<and> take (length h) h' = h
        \<and> length h \<le> fst (fst r) \<and> length h \<le> snd (fst r)
        \<and> (h' ! fst (fst r), h' ! snd (fst r)) = Naskar2021_dfun m (h ! state) (h ! coupling))
   \<and> (let r = Deco2018_dfun_store m' state coupling h; h' = snd r in
        h' ! state = h ! state \<and> h' ! coupling = h ! coupling \<and> take (length h) h' = h
        \<and> length h \<le> fst (fst r) \<and> length h \<le> snd (fst r)
        \<and> (h' ! fst (fst r), h' ! snd (fst r)) = Deco2018_dfun m' (h ! state) (h ! coupling))"
  by (simp add: Naskar2021_dfun_store_eq Deco2018_dfun_store_eq Let_def nth_append)

theorem dfun_leaves_arguments_witness:
  "(let h = [Naskar2021_rest, no_coupling];
        r = Naskar2021_dfun_store Naskar2021_defaults 0 1 h in
      snd r ! 0 = Naskar2021_rest \<and> snd r ! 1 = no_coupling)
   \<and> (let h = [[[Fin 2], [Fin (- 1)]], no_coupling];
        r = Deco2018_dfun_store Deco2018_defaults 0 1 h in
      snd r ! 0 = [[Fin 2], [Fin (- 1)]] \<and> snd r ! 1 = no_coupling)"
  using dfun_leaves_arguments [of 0 "[Naskar2021_rest, no_coupling]" 1 Naskar2021_defaults]
    dfun_leaves_arguments [of 0 "[[[Fin 2], [Fin (- 1)]], no_coupling]" 1 _ Deco2018_defaults]
  by (simp add: Let_def)

text \<open>
  For contrast: clipping into the view itself (\<open>out=state[0, :]\<close>) does change the state.
\<close>

lemma np_clip_store_out_changes_state:
  "snd (np_clip_store (0, 0) 0 1 (Some (0, 0)) [[[Fin 2], [Fin (- 1)]]]) ! 0
     = [[Fin 1], [Fin (- 1)]]"
  by (simp add: np_clip_store_def row_of_def)


lemma f8_sum_single: "f8_sum [x] = x"
  by (simp add: f8_sum_def f8_zero_add)

lemma np_convolve_full_length:
  assumes "u \<noteq> []" and "v \<noteq> []"
  shows "\<exists>full. np_convolve_full u v = Inr full \<and> length full = length u + length v - 1"
  using assms by (simp add: np_convolve_full_def)

lemma np_convolve_full_identity:
  assumes "u \<noteq> []"
  shows "np_convolve_full u [Fin 1] = Inr u"
proof -
  have "map (\<lambda>k. f8_sum (map (\<lambda>i. u ! i * [Fin 1] ! (k - i)) [k + 1 - 1..<min (Suc k) (length u)]))
          [0..<length u] = u"
  proof (rule nth_equalityI)
    show "length (map (\<lambda>k. f8_sum (map (\<lambda>i. u ! i * [Fin 1] ! (k - i))
            [k + 1 - 1..<min (Suc k) (length u)])) [0..<length u]) = length u"
      by simp
  next
    fix k
    assume "k < length (map (\<lambda>k. f8_sum (map (\<lambda>i. u ! i * [Fin 1] ! (k - i))
            [k + 1 - 1..<min (Suc k) (length u)])) [0..<length u])"
    then have k: "k < length u" by simp
    then have "[k + 1 - 1..<min (Suc k) (length u)] = [k]"
      by (simp add: min_def upt_rec [of k])
    with k show "map (\<lambda>k. f8_sum (map (\<lambda>i. u ! i * [Fin 1] ! (k - i))
            [k + 1 - 1..<min (Suc k) (length u)])) [0..<length u] ! k = u ! k"
      by (simp add: f8_sum_single f8_mul_one)
  qed
  with assms show ?thesis
    by (simp add: np_convolve_full_def)
qed

lemma half_up: "0 < n \<Longrightarrow> n - 1 - (n - 1) div 2 = n div (2::nat)"
  by arith

lemma back_len: "0 < n \<Longrightarrow> m + n - 1 - (n div 2 + m) = (n - 1) div (2::nat)"
  by arith

lemma front_len: "0 < n \<Longrightarrow> 0 < m \<Longrightarrow> n div 2 \<le> m + n - (1::nat)"
  by arith

lemma mid_len: "0 < n \<Longrightarrow> m + n - 1 - n div 2 = m + (n - 1) div (2::nat)"
  by arith

lemma three_parts: "xs = take a xs @ take b (drop a xs) @ drop (a + b) xs"
proof -
  have "drop a xs = take b (drop a xs) @ drop b (drop a xs)"
    by (simp only: append_take_drop_id)
  also have "drop b (drop a xs) = drop (a + b) xs"
    by (simp only: drop_drop add.commute)
  finally have "take a xs @ drop a xs = take a xs @ take b (drop a xs) @ drop (a + b) xs"
    by simp
  then show ?thesis
    by (simp only: append_take_drop_id)
qed

text \<open>
  Claim C7. For nonempty \<open>u\<close> and \<open>v\<close>, \<open>conv u v\<close> is the part of the full convolution
  that remains after \<open>len(v) div 2\<close> entries are cut from the front and
  \<open>(len(v) - 1) div 2\<close> from the back: it has the length of \<open>u\<close>, and when the overhang
  \<open>len(v) - 1\<close> is odd the front loses one entry more than the back. With the kernel
  \<open>[1.0]\<close> the result is \<open>u\<close> itself.
\<close>

theorem conv_same_length:
  "(u \<noteq> [] \<and> v \<noteq> [] \<longrightarrow>
      (\<exists>full r. np_convolve_full u v = Inr full \<and> length full = length u + (length v - 1)
         \<and> conv u v = Inr r \<and> length r = length u
         \<and> full = take (length v div 2) full @ r @ drop (length v div 2 + length u) full
         \<and> length (take (length v div 2) full) = length v div 2
         \<and> length (drop (length v div 2 + length u) full) = (length v - 1) div 2))
   \<and> (u \<noteq> [] \<longrightarrow> conv u [Fin 1] = Inr u)"
proof (intro conjI impI)
  assume a: "u \<noteq> [] \<and> v \<noteq> []"
  then obtain full where full: "np_convolve_full u v = Inr full"
    and len: "length full = length u + length v - 1"
    using np_convolve_full_length by blast
  from a have v: "0 < length v" and u: "0 < length u" by simp_all
  have first: "length v - 1 - (length v - 1) div 2 = length v div 2"
    using v by (rule half_up)
  let ?r = "take (length u) (drop (length v div 2) full)"
  have c: "conv u v = Inr ?r"
    unfolding conv_def Let_def first by (simp add: full and_then_def)
  have "length v div 2 \<le> length u + length v - 1"
    using v u by (rule front_len)
  then have lf: "length (take (length v div 2) full) = length v div 2"
    by (simp add: len)
  have lb: "length (drop (length v div 2 + length u) full) = (length v - 1) div 2"
    using back_len [OF v, of "length u"] by (simp only: length_drop len)
  have "length (drop (length v div 2) full) = length u + (length v - 1) div 2"
    using mid_len [OF v, of "length u"] by (simp only: length_drop len)
  then have lr: "length ?r = length u"
    by simp
  have split: "full = take (length v div 2) full @ ?r @ drop (length v div 2 + length u) full"
    by (rule three_parts)
  have len': "length full = length u + (length v - 1)"
    using len v by linarith
  from full len' c lr split lf lb
  show "\<exists>full r. np_convolve_full u v = Inr full \<and> length full = length u + (length v - 1)
         \<and> conv u v = Inr r \<and> length r = length u
         \<and> full = take (length v div 2) full @ r @ drop (length v div 2 + length u) full
         \<and> length (take (length v div 2) full) = length v div 2
         \<and> length (drop (length v div 2 + length u) full) = (length v - 1) div 2"
    by (intro exI [of _ full] exI [of _ ?r]) simp
next
  assume "u \<noteq> []"
  then show "conv u [Fin 1] = Inr u"
    by (simp add: conv_def np_convolve_full_identity and_then_def)
qed

theorem conv_same_length_witness:
  "conv [Fin 1, Fin 2, Fin 3] [Fin 1] = Inr [Fin 1, Fin 2, Fin 3]
   \<and> (\<exists>r. conv [Fin 1, Fin 2, Fin 3] [Fin 1, Fin 1] = Inr r \<and> length r = length [Fin 1, Fin 2, Fin 3])"
proof
  have ne: "[Fin 1, Fin 2, Fin 3] \<noteq> []"
    by simp
  from conv_same_length [of "[Fin 1, Fin 2, Fin 3]" "[Fin 1]", THEN conjunct2, THEN mp, OF ne]
  show "conv [Fin 1, Fin 2, Fin 3] [Fin 1] = Inr [Fin 1, Fin 2, Fin 3]" .
next
  have ne: "[Fin 1, Fin 2, Fin 3] \<noteq> [] \<and> [Fin 1, Fin 1] \<noteq> []"
    by simp
  from conv_same_length [of "[Fin 1, Fin 2, Fin 3]" "[Fin 1, Fin 1]", THEN conjunct1, THEN mp, OF ne]
  obtain full r where "conv [Fin 1, Fin 2, Fin 3] [Fin 1, Fin 1] = Inr r"
    and "length r = length [Fin 1, Fin 2, Fin 3]"
    by (elim exE conjE)
  then show "\<exists>r. conv [Fin 1, Fin 2, Fin 3] [Fin 1, Fin 1] = Inr r
      \<and> length r = length [Fin 1, Fin 2, Fin 3]"
    by (intro exI conjI)
qed

lemma upt_4: "[0..<4] = [0, 1, 2, 3]"
  by code_simp

lemma conv_example_full:
  "np_convolve_full [Fin 1, Fin 2, Fin 3] [Fin 1, Fin 1] = Inr [Fin 1, Fin 3, Fin 5, Fin 3]"
proof -
  have r: "[0..<Suc 0] = [0]" "[0..<2] = [0, 1]" "[Suc 0..<3] = [1, 2]" "[2..<3] = [2]"
    by code_simp+
  show ?thesis
    by (simp add: np_convolve_full_def upt_4 f8_sum_def r)
qed

lemma conv_example:
  "conv [Fin 1, Fin 2, Fin 3] [Fin 1, Fin 1] = Inr [Fin 3, Fin 5, Fin 3]"
  by (simp add: conv_def conv_example_full and_then_def)


lemma is_arr2_nth:
  assumes "is_arr2 r c a" and "i < r"
  shows "length (a ! i) = c"
  using assms by (simp add: is_arr2_def list_all_length)

lemma np_T_nth:
  assumes "is_arr2 r c a" and "0 < r" and "t < c" and "i < r"
  shows "np_T a ! t ! i = a ! i ! t"
proof -
  have "a \<noteq> []" and "length (a ! 0) = c" and "length a = r"
    using assms is_arr2_nth [OF assms(1), of 0] by (auto simp add: is_arr2_def)
  then show ?thesis
    using assms(3,4) by (simp add: np_T_def)
qed

lemma np_T_shape:
  assumes "is_arr2 r c a" and "0 < r"
  shows "is_arr2 c r (np_T a)"
proof -
  have "a \<noteq> []" and "length (a ! 0) = c" and "length a = r"
    using assms is_arr2_nth [OF assms(1), of 0] by (auto simp add: is_arr2_def)
  then show ?thesis
    by (simp add: np_T_def is_arr2_def list_all_length)
qed

lemma np_T_eq:
  assumes "is_arr2 r c a" and "0 < r"
  shows "np_T a = map (\<lambda>t. map (\<lambda>i. a ! i ! t) [0..<r]) [0..<c]"
proof -
  have "a \<noteq> []" and "length (a ! 0) = c" and "length a = r"
    using assms is_arr2_nth [OF assms(1), of 0] by (auto simp add: is_arr2_def)
  moreover have "\<And>t. map (\<lambda>row. row ! t) a = map (\<lambda>i. a ! i ! t) [0..<length a]"
    by (rule nth_equalityI) simp_all
  ultimately show ?thesis
    by (simp add: np_T_def)
qed


lemma is_arr2_map:
  assumes "is_arr2 r c a"
  shows "is_arr2 r c (map (map g) a)"
  using assms by (simp add: is_arr2_def list_all_length)

lemma filt_pow_spetra_value:
  assumes sig: "is_arr2 nNodes Tmax signal" and n: "0 < nNodes" and t: "0 < Tmax"
    and tr: "TR \<noteq> 0" and filt: "is_arr2 Tmax nNodes (f (np_T signal))"
  shows "\<exists>ps. filt_pow_spetra signal TR (Some f) = Inr ps \<and> is_arr2 (Tmax div 2) nNodes ps \<and>
           (\<forall>k<Tmax div 2. \<forall>i<nNodes.
              ps ! k ! i = Fin ((cmod (dft (np_T (f (np_T signal)) ! i) k)) ^ 2)
                             / Fin (real Tmax / TR))"
proof -
  let ?ts = "np_T (f (np_T signal))"
  let ?B = "map (take (Tmax div 2)) (map np_abs_fft ?ts)"
  let ?g = "\<lambda>x. Fin (x ^ 2) / Fin (real Tmax / TR)"
  let ?ps = "map (map ?g) (np_T ?B)"
  have s0: "signal \<noteq> []" "length (signal ! 0) = Tmax"
    using sig n is_arr2_nth [OF sig n] by (auto simp add: is_arr2_def)
  then have s1: "signal ! 0 \<noteq> []"
    using t by auto
  have ts: "is_arr2 nNodes Tmax ?ts"
    using np_T_shape [OF filt t] .
  have rows: "\<And>i. i < nNodes \<Longrightarrow> length (?ts ! i) = Tmax"
    using is_arr2_nth [OF ts] .
  have lts: "length ?ts = nNodes"
    using ts by (simp add: is_arr2_def)
  have noempty: "\<not> list_ex (\<lambda>r. r = []) ?ts"
  proof
    assume "list_ex (\<lambda>r. r = []) ?ts"
    then obtain i where "i < length ?ts" and "?ts ! i = []"
      by (auto simp add: list_ex_iff in_set_conv_nth)
    then show False
      using rows [of i] lts t by simp
  qed
  have val: "filt_pow_spetra signal TR (Some f) = Inr ?ps"
    using s0 s1 noempty tr by (simp add: filt_pow_spetra_def Let_def)
  have half: "min Tmax (Tmax div 2) = Tmax div 2"
    by (rule min_absorb2) (rule div_le_dividend)
  have B: "is_arr2 nNodes (Tmax div 2) ?B"
    using lts rows by (simp add: is_arr2_def list_all_length np_abs_fft_def half)
  have shape: "is_arr2 (Tmax div 2) nNodes ?ps"
    using is_arr2_map [OF np_T_shape [OF B n]] .
  have entry: "?ps ! k ! i = Fin ((cmod (dft (?ts ! i) k)) ^ 2) / Fin (real Tmax / TR)"
    if k: "k < Tmax div 2" and i: "i < nNodes" for k i
  proof -
    have TB: "is_arr2 (Tmax div 2) nNodes (np_T ?B)"
      using np_T_shape [OF B n] .
    have lk: "length (np_T ?B) = Tmax div 2" and li: "length (np_T ?B ! k) = nNodes"
      using TB is_arr2_nth [OF TB k] by (simp_all add: is_arr2_def)
    have "?ps ! k ! i = ?g (np_T ?B ! k ! i)"
      using k i lk li by simp
    also have "np_T ?B ! k ! i = ?B ! i ! k"
      using np_T_nth [OF B n k i] .
    also have "?B ! i ! k = cmod (dft (?ts ! i) k)"
    proof -
      have "k < Tmax" using k by simp
      then show ?thesis
        using i k lts rows [OF i] by (simp add: np_abs_fft_def)
    qed
    finally show ?thesis .
  qed
  from val shape entry show ?thesis
    by blast
qed

lemma np_T_one_row: "np_T [[a, b]] = [[a], [b]]"
  by (simp add: np_T_def upt_2)

lemma np_T_two_rows: "np_T [[a], [b]] = [[a, b]]"
  by (simp add: np_T_def)

lemma dft_bin0_two: "dft [a, b] 0 = of_real a + of_real b"
  by (simp add: dft_def upt_2)

lemma is_arr2_one_one:
  assumes "is_arr2 1 1 ps"
  shows "ps = [[ps ! 0 ! 0]]"
proof -
  from assms obtain row where ps: "ps = [row]"
    by (cases ps) (auto simp add: is_arr2_def)
  with assms obtain x where "row = [x]"
    by (cases row) (auto simp add: is_arr2_def)
  with ps show ?thesis by simp
qed

lemma impulse_shapes:
  "is_arr2 1 2 [[1, 0 :: real]]" "is_arr2 2 1 (np_T [[1, 0 :: real]])"
  by (simp_all add: is_arr2_def np_T_one_row)

text \<open>
  Claim C2, as amended. For a time series of \<open>nNodes\<close> regions and \<open>Tmax\<close> samples, a
  sampling interval \<open>TR \<noteq> 0\<close> and a filter that keeps the shape of this series, the
  estimator returns \<open>Tmax div 2\<close> rows of \<open>nNodes\<close> entries, the entry of bin \<open>k\<close> and region
  \<open>i\<close> being the squared Fourier magnitude of the filtered series of region \<open>i\<close> at bin
  \<open>k\<close> divided by \<open>Tmax / TR\<close>.
\<close>

theorem power_spectrum_normalisation:
  "is_arr2 nNodes Tmax signal \<and> 0 < nNodes \<and> 0 < Tmax \<and> TR \<noteq> 0
     \<and> is_arr2 Tmax nNodes (f (np_T signal)) \<longrightarrow>
   (\<exists>ps. filt_pow_spetra signal TR (Some f) = Inr ps \<and> is_arr2 (Tmax div 2) nNodes ps \<and>
      (\<forall>k<Tmax div 2. \<forall>i<nNodes.
         ps ! k ! i = Fin ((cmod (dft (np_T (f (np_T signal)) ! i) k)) ^ 2)
                        / Fin (real Tmax / TR)))"
  using filt_pow_spetra_value by blast

theorem power_spectrum_normalisation_witness:
  "\<exists>ps. filt_pow_spetra [[1, 0]] 1 (Some (\<lambda>x. x)) = Inr ps \<and> is_arr2 1 1 ps
      \<and> ps ! 0 ! 0 = Fin ((cmod (dft [1, 0] 0)) ^ 2) / Fin (2 / 1)"
proof -
  have "is_arr2 1 2 [[1, 0 :: real]] \<and> 0 < (1::nat) \<and> 0 < (2::nat) \<and> (1::real) \<noteq> 0
      \<and> is_arr2 2 1 ((\<lambda>x. x) (np_T [[1, 0 :: real]]))"
    using impulse_shapes by simp
  from power_spectrum_normalisation [of 1 2 "[[1, 0]]" 1 "\<lambda>x. x", THEN mp, OF this]
  obtain ps where "filt_pow_spetra [[1, 0]] 1 (Some (\<lambda>x. x)) = Inr ps"
    and "is_arr2 (2 div 2) 1 ps"
    and "\<forall>k<2 div 2. \<forall>i<1.
         ps ! k ! i = Fin ((cmod (dft (np_T (np_T [[1, 0]]) ! i) k)) ^ 2) / Fin (real 2 / 1)"
    by (elim exE conjE)
  then show ?thesis
    by (intro exI [of _ ps]) (simp add: np_T_one_row np_T_two_rows)
qed

theorem power_spectrum_normalisation_counterexample:
  "filt_pow_spetra [[1, 0]] 1 (Some (\<lambda>x. x)) = Inr [[Fin (1 / 2)]]
   \<and> PowSpect_spec [[1, 0]] 1 (\<lambda>x. x) 0 0 = Fin 1
   \<and> Fin (1 / 2) \<noteq> Fin 1"
proof -
  obtain ps where ps: "filt_pow_spetra [[1, 0]] 1 (Some (\<lambda>x. x)) = Inr ps"
    and shape: "is_arr2 (2 div 2) 1 ps"
    and entry: "\<forall>k<2 div 2. \<forall>i<1.
         ps ! k ! i = Fin ((cmod (dft (np_T (np_T [[1, 0]]) ! i) k)) ^ 2) / Fin (real 2 / 1)"
    using filt_pow_spetra_value [of 1 2 "[[1, 0]]" 1 "\<lambda>x. x"] impulse_shapes by auto
  have "ps ! 0 ! 0 = Fin (1 / 2)"
    using entry by (simp add: np_T_one_row np_T_two_rows dft_bin0_two)
  moreover have "ps = [[ps ! 0 ! 0]]"
    using shape by (intro is_arr2_one_one) simp
  ultimately have "ps = [[Fin (1 / 2)]]"
    by simp
  moreover have "PowSpect_spec [[1, 0]] 1 (\<lambda>x. x) 0 0 = Fin 1"
    by (simp add: PowSpect_spec_def np_T_one_row np_T_two_rows dft_bin0_two)
  ultimately show ?thesis
    using ps by simp
qed


lemma broadcast_assign_same_shape:
  assumes "is_arr2 R C v" and "0 < R"
  shows "\<exists>b. broadcast_assign (R, C) v = Inr b"
proof -
  have "v \<noteq> []" and "length v = R" and "length (v ! 0) = C"
    using assms is_arr2_nth [OF assms(1), of 0] by (auto simp add: is_arr2_def)
  then show ?thesis
    by (simp add: broadcast_assign_def Let_def)
qed

lemma broadcast_assign_mismatch:
  assumes "is_arr2 r c v" and "0 < r" and "c \<noteq> C" and "c \<noteq> 1"
  shows "broadcast_assign (R, C) v = Inl ValueError"
proof -
  have "v \<noteq> []" and "length (v ! 0) = c"
    using assms is_arr2_nth [OF assms(1), of 0] by (auto simp add: is_arr2_def)
  then show ?thesis
    using assms(3,4) by (simp add: broadcast_assign_def Let_def)
qed

lemma and_then_Inl: "and_then (Inl e) g = Inl e"
  by (simp add: and_then_def)

lemma Subjects_branch:
  assumes "snd first \<noteq> []"
  shows "Power_Areas_filt_narrow_unsmoothed (Subjects (first # rest)) tr f =
     and_then (fill_PowSpect (length (snd first), length (snd first ! 0) div 2) tr f
                 (map (\<lambda>s. map (take (length (snd first ! 0))) (snd s)) (first # rest)))
       (\<lambda>PowSpect. Inr (length (snd first), length (snd first ! 0),
          np_T (np_mean_axis0 (length (snd first), length (snd first ! 0) div 2) PowSpect)))"
  using assms by (simp add: Power_Areas_filt_narrow_unsmoothed_def Let_def)

text \<open>
  Claim C5: the branch for one two-dimensional array calls \<open>filt_pow_spetra(signal, tr)\<close>
  without the filter, and the call raises TypeError whatever the array is.
\<close>

theorem single_subject_raises:
  "filt_pow_spetra_multiple_subjects (Single a) tr f = Inl TypeError"
  by (simp add: filt_pow_spetra_multiple_subjects_def Power_Areas_filt_narrow_unsmoothed_def
      filt_pow_spetra_def and_then_def)

lemma upt_6: "[0..<6] = [0, 1, 2, 3, 4, 5]"
  by code_simp

lemma first_subject_shapes:
  "is_arr2 1 6 [[1, 0, 0, 0, 0, 0 :: real]]"
  "is_arr2 6 1 (np_T [[1, 0, 0, 0, 0, 0 :: real]])"
  by (simp_all add: is_arr2_def np_T_def upt_6)

lemma second_subject_shapes:
  "is_arr2 1 4 [[1, 0, 0, 0 :: real]]"
  "is_arr2 4 1 (np_T [[1, 0, 0, 0 :: real]])"
  by (simp_all add: is_arr2_def np_T_def upt_4)

text \<open>
  Claim C4: two subjects, the first with six samples and the second with four. The
  common length is taken from the first subject, the second is not cut to it, and the
  assignment of its spectrum (two bins) to a block of three bins raises ValueError.
\<close>

theorem shorter_later_subject_raises:
  "filt_pow_spetra_multiple_subjects two_subjects 2 (\<lambda>x. x) = Inl ValueError"
proof -
  obtain pa where pa: "filt_pow_spetra [[1, 0, 0, 0, 0, 0]] 2 (Some (\<lambda>x. x)) = Inr pa"
    and sa: "is_arr2 (6 div 2) 1 pa"
    using filt_pow_spetra_value [of 1 6 "[[1, 0, 0, 0, 0, 0]]" 2 "\<lambda>x. x"] first_subject_shapes
    by auto
  obtain pb where pb: "filt_pow_spetra [[1, 0, 0, 0]] 2 (Some (\<lambda>x. x)) = Inr pb"
    and sb: "is_arr2 (4 div 2) 1 pb"
    using filt_pow_spetra_value [of 1 4 "[[1, 0, 0, 0]]" 2 "\<lambda>x. x"] second_subject_shapes
    by auto
  have ta: "is_arr2 1 3 (np_T pa)"
    using np_T_shape [of 3 1 pa] sa by simp
  have tb: "is_arr2 1 2 (np_T pb)"
    using np_T_shape [of 2 1 pb] sb by simp
  obtain block where a_ok: "broadcast_assign (Suc 0, 3) (np_T pa) = Inr block"
    using broadcast_assign_same_shape [OF ta] by auto
  have b_bad: "broadcast_assign (Suc 0, 3) (np_T pb) = Inl ValueError"
    using broadcast_assign_mismatch [OF tb, of 3 1] by simp
  have fill: "fill_PowSpect (Suc 0, 3) 2 (\<lambda>x. x) [[[1, 0, 0, 0, 0, 0]], [[1, 0, 0, 0]]]
      = Inl ValueError"
    by (simp add: pa pb a_ok b_bad and_then_def)
  let ?first = "(''a'', [[1, 0, 0, 0, 0, 0 :: real]])"
  let ?rest = "[(''b'', [[1, 0, 0, 0 :: real]])]"
  have shp: "(length (snd ?first), length (snd ?first ! 0) div 2) = (Suc 0, 3)"
    by simp
  have subs: "map (\<lambda>s. map (take (length (snd ?first ! 0))) (snd s)) (?first # ?rest)
      = [[[1, 0, 0, 0, 0, 0]], [[1, 0, 0, 0]]]"
    by simp
  have "snd ?first \<noteq> []"
    by simp
  from Subjects_branch [OF this, of ?rest 2 "\<lambda>x. x"]
  have "Power_Areas_filt_narrow_unsmoothed (Subjects (?first # ?rest)) 2 (\<lambda>x. x)
      = Inl ValueError"
    by (simp only: shp subs fill and_then_Inl)
  then show ?thesis
    by (simp only: filt_pow_spetra_multiple_subjects_def two_subjects_def and_then_Inl)
qed


section \<open>The plasticity model with \<open>gamma\<close> set to zero\<close>

lemma f8_add_zero: "x + Fin 0 = (x::f8)"
  by (cases x) simp_all

lemma f8_mul_Fin_commute: "Fin a * x = x * Fin a"
  by (cases x) (simp_all add: mult.commute)

lemma f8_div_reciprocal:
  assumes "b \<noteq> 0"
  shows "x / Fin (1 / b) = x * Fin b"
  using assms by (cases x) simp_all

lemma fixed_gain_Ie:
  "Deco2018_Ie (fixed_gain_table p Jc) Se Si c = Naskar2021_Ie p Se Si (Fin Jc) c"
  by (simp add: Deco2018_Ie_def Naskar2021_Ie_def f8_add_zero)

lemma fixed_gain_Ii:
  "Deco2018_Ii (fixed_gain_table p Jc) Se Si = Naskar2021_Ii p Se Si"
  by (simp add: Deco2018_Ii_def Naskar2021_Ii_def)

lemma fixed_gain_ye:
  "Deco2018_ye (fixed_gain_table p Jc) x = Naskar2021_ye p x"
proof -
  have "Fin 1 + Fin 1 * Fin (p M_e - 1) = Fin (p M_e)"
    by simp
  then show ?thesis
    by (simp only: Deco2018_ye_def Naskar2021_ye_def fixed_gain_table.simps
        f8_mul_Fin_commute [of "p M_e"])
qed

lemma fixed_gain_yi:
  "Deco2018_yi (fixed_gain_table p Jc) x = Naskar2021_yi p x"
proof -
  have "Fin 1 + Fin 1 * Fin (p M_i - 1) = Fin (p M_i)"
    by simp
  then show ?thesis
    by (simp only: Deco2018_yi_def Naskar2021_yi_def fixed_gain_table.simps
        f8_mul_Fin_commute [of "p M_i"])
qed

lemma fixed_gain_dSe:
  assumes "p B_e \<noteq> 0"
  shows "Deco2018_dSe (fixed_gain_table p Jc) Se x = Naskar2021_dSe p Se x"
  using assms by (simp add: Deco2018_dSe_def Naskar2021_dSe_def f8_div_reciprocal)

lemma Naskar2021_dSi_Fin:
  "Naskar2021_dSi p (Fin s) (Fin r) =
     Fin (- s * p B_i + p alfa_i * p t_gaba * (1 - s) * r / 1000)"
  by (simp add: Naskar2021_dSi_def minus_f8_def)

lemma fixed_gain_dSi_Fin:
  assumes "p B_i \<noteq> 0"
  shows "Deco2018_dSi (fixed_gain_table p Jc) (Fin s) (Fin r) =
     Fin (- s * p B_i + p alfa_i * p t_gaba * r / 1000)"
  using assms by (simp add: Deco2018_dSi_def)

lemma dfun_shapes_first_two:
  assumes "dfun_shapes 3 n state coupling"
  shows "dfun_shapes 2 n [state ! 0, state ! 1] coupling"
  using assms dfun_shapes_rows(1) [OF assms, of 0] dfun_shapes_rows(1) [OF assms, of 1]
  by (simp add: dfun_shapes_def)

lemma Naskar2021_dfun_nth_S:
  assumes "dfun_shapes 3 n state coupling" and "j < n"
  shows "fst (Naskar2021_dfun m state coupling) ! 0 ! j =
           Naskar2021_dSe (\<lambda>k. m k j) (np_clip 0 1 (state ! 0 ! j))
             (Naskar2021_re_at m state coupling j)"
    and "fst (Naskar2021_dfun m state coupling) ! 1 ! j =
           Naskar2021_dSi (\<lambda>k. m k j) (np_clip 0 1 (state ! 1 ! j))
             (Naskar2021_ri_at m state j)"
proof -
  have len: "length (state ! 0) = n" "length (state ! 1) = n"
    using dfun_shapes_rows(1) [OF assms(1)] by simp_all
  show "fst (Naskar2021_dfun m state coupling) ! 0 ! j =
           Naskar2021_dSe (\<lambda>k. m k j) (np_clip 0 1 (state ! 0 ! j))
             (Naskar2021_re_at m state coupling j)"
    using len assms(2)
    by (simp add: Naskar2021_dfun_def Naskar2021_arith_def Let_def Naskar2021_re_at_def
        Naskar2021_ye_at_def Naskar2021_Ie_at_def)
  show "fst (Naskar2021_dfun m state coupling) ! 1 ! j =
           Naskar2021_dSi (\<lambda>k. m k j) (np_clip 0 1 (state ! 1 ! j))
             (Naskar2021_ri_at m state j)"
    using len assms(2)
    by (simp add: Naskar2021_dfun_def Naskar2021_arith_def Let_def Naskar2021_ri_at_def
        Naskar2021_yi_at_def)
qed

lemma fixed_gain_dfun_nth:
  assumes sh: "dfun_shapes 3 n state coupling" and j: "j < n"
    and J: "state ! 2 ! j = Fin (Jc j)"
  shows "snd (fixed_gain_dfun m Jc state coupling) ! 0 ! j = Naskar2021_Ie_at m state coupling j"
    and "snd (fixed_gain_dfun m Jc state coupling) ! 1 ! j = Naskar2021_re_at m state coupling j"
    and "fst (fixed_gain_dfun m Jc state coupling) ! 0 ! j =
           Deco2018_dSe (fixed_gain_table (\<lambda>k. m k j) (Jc j)) (np_clip 0 1 (state ! 0 ! j))
             (Naskar2021_re_at m state coupling j)"
    and "fst (fixed_gain_dfun m Jc state coupling) ! 1 ! j =
           Deco2018_dSi (fixed_gain_table (\<lambda>k. m k j) (Jc j)) (np_clip 0 1 (state ! 1 ! j))
             (Naskar2021_ri_at m state j)"
proof -
  have len: "length (state ! 0) = n" "length (state ! 1) = n"
    using dfun_shapes_rows(1) [OF sh] by simp_all
  show "snd (fixed_gain_dfun m Jc state coupling) ! 0 ! j = Naskar2021_Ie_at m state coupling j"
    using len j J
    by (simp add: fixed_gain_dfun_def Deco2018_dfun_def Deco2018_arith_def Let_def
        fixed_gain_Ie Naskar2021_Ie_at_def)
  show "snd (fixed_gain_dfun m Jc state coupling) ! 1 ! j = Naskar2021_re_at m state coupling j"
    using len j J
    by (simp add: fixed_gain_dfun_def Deco2018_dfun_def Deco2018_arith_def Let_def
        fixed_gain_Ie fixed_gain_ye Naskar2021_re_at_def Naskar2021_ye_at_def
        Naskar2021_Ie_at_def)
  show "fst (fixed_gain_dfun m Jc state coupling) ! 0 ! j =
           Deco2018_dSe (fixed_gain_table (\<lambda>k. m k j) (Jc j)) (np_clip 0 1 (state ! 0 ! j))
             (Naskar2021_re_at m state coupling j)"
    using len j J
    by (simp add: fixed_gain_dfun_def Deco2018_dfun_def Deco2018_arith_def Let_def
        fixed_gain_Ie fixed_gain_ye Naskar2021_re_at_def Naskar2021_ye_at_def
        Naskar2021_Ie_at_def)
  show "fst (fixed_gain_dfun m Jc state coupling) ! 1 ! j =
           Deco2018_dSi (fixed_gain_table (\<lambda>k. m k j) (Jc j)) (np_clip 0 1 (state ! 1 ! j))
             (Naskar2021_ri_at m state j)"
    using len j
    by (simp add: fixed_gain_dfun_def Deco2018_dfun_def Deco2018_arith_def Let_def
        fixed_gain_Ii fixed_gain_yi Naskar2021_ri_at_def Naskar2021_yi_at_def)
qed

lemma Naskar2021_view_one:
  "Naskar2021_view attrs 1 k j = attrs k 0"
  "Naskar2021_view attrs (Suc 0) k j = attrs k 0"
  by (simp_all add: Naskar2021_view_def)

lemma Naskar2021_view_one_at:
  "Naskar2021_re_at (Naskar2021_view attrs 1) state coupling 0 = Naskar2021_re_at attrs state coupling 0"
  "Naskar2021_ri_at (Naskar2021_view attrs 1) state 0 = Naskar2021_ri_at attrs state 0"
  by (simp_all add: Naskar2021_re_at_def Naskar2021_ri_at_def Naskar2021_ye_at_def
      Naskar2021_yi_at_def Naskar2021_Ie_at_def Naskar2021_view_one)

lemma Naskar2021_gamma_zero_at:
  "Naskar2021_re_at (Naskar2021_gamma_zero attrs) state coupling j = Naskar2021_re_at attrs state coupling j"
  "Naskar2021_ri_at (Naskar2021_gamma_zero attrs) state j = Naskar2021_ri_at attrs state j"
  by (simp_all add: Naskar2021_re_at_def Naskar2021_ri_at_def Naskar2021_ye_at_def
      Naskar2021_yi_at_def Naskar2021_Ie_at_def Naskar2021_ye_def Naskar2021_yi_def
      Naskar2021_Ie_def Naskar2021_Ii_def Naskar2021_gamma_zero_def Naskar2021_rows)

text \<open>
  Claim C9, as amended. For a model of one region, where the compiled function reads the
  attributes themselves: (a) with the attribute \<open>gamma\<close> set to zero the third derivative
  row is zero whenever the two firing rates of the call are finite numbers, so that \<open>J\<close>
  stays constant; (b) with \<open>J\<close> at a constant finite value the derivative of \<open>S_e\<close>, the
  current and the firing rate are those of the fixed-gain function for the corresponding
  table, while the derivative of \<open>S_i\<close> is not: for finite \<open>S_i = s\<close> and \<open>r_i = r\<close> the
  plasticity model gives \<open>- s * B_i + alfa_i * t_gaba * (1 - s) * r / 1000\<close> where the
  fixed-gain equation gives \<open>- s * B_i + alfa_i * t_gaba * r / 1000\<close>.
\<close>

theorem gamma_zero_one_region:
  "(dfun_shapes 3 1 state coupling \<and> attrs gamma 0 = 0
      \<and> is_finite (Naskar2021_re_at (Naskar2021_view attrs 1) state coupling 0)
      \<and> is_finite (Naskar2021_ri_at (Naskar2021_view attrs 1) state 0)
    \<longrightarrow> fst (Naskar2021_dfun (Naskar2021_view attrs 1) state coupling) ! 2 ! 0 = Fin 0)
   \<and> (dfun_shapes 3 1 state coupling \<and> state ! 2 ! 0 = Fin (Jc 0)
      \<and> attrs B_e 0 \<noteq> 0 \<and> attrs B_i 0 \<noteq> 0
    \<longrightarrow> fst (Naskar2021_dfun (Naskar2021_view attrs 1) state coupling) ! 0 ! 0
          = fst (fixed_gain_dfun (Naskar2021_view attrs 1) Jc state coupling) ! 0 ! 0
        \<and> snd (Naskar2021_dfun (Naskar2021_view attrs 1) state coupling) ! 0 ! 0
          = snd (fixed_gain_dfun (Naskar2021_view attrs 1) Jc state coupling) ! 0 ! 0
        \<and> snd (Naskar2021_dfun (Naskar2021_view attrs 1) state coupling) ! 1 ! 0
          = snd (fixed_gain_dfun (Naskar2021_view attrs 1) Jc state coupling) ! 1 ! 0
        \<and> (\<forall>s r. np_clip 0 1 (state ! 1 ! 0) = Fin s
               \<and> Naskar2021_ri_at (Naskar2021_view attrs 1) state 0 = Fin r
             \<longrightarrow> fst (Naskar2021_dfun (Naskar2021_view attrs 1) state coupling) ! 1 ! 0
                   = Fin (- s * attrs B_i 0 + attrs alfa_i 0 * attrs t_gaba 0 * (1 - s) * r / 1000)
                 \<and> fst (fixed_gain_dfun (Naskar2021_view attrs 1) Jc state coupling) ! 1 ! 0
                   = Fin (- s * attrs B_i 0 + attrs alfa_i 0 * attrs t_gaba 0 * r / 1000)))"
proof (intro conjI impI allI)
  let ?m = "Naskar2021_view attrs 1"
  assume a: "dfun_shapes 3 1 state coupling \<and> attrs gamma 0 = 0
      \<and> is_finite (Naskar2021_re_at ?m state coupling 0)
      \<and> is_finite (Naskar2021_ri_at ?m state 0)"
  then have "fst (Naskar2021_dfun ?m state coupling) ! 2 ! 0 =
      Naskar2021_dJ (\<lambda>k. ?m k 0) (Naskar2021_re_at ?m state coupling 0) (Naskar2021_ri_at ?m state 0)"
    using Naskar2021_dfun_nth(1) [of 1 state coupling 0 ?m] by simp
  with a show "fst (Naskar2021_dfun ?m state coupling) ! 2 ! 0 = Fin 0"
    by (simp add: Naskar2021_dJ_def Naskar2021_view_one dJ_gamma_zero)
next
  let ?m = "Naskar2021_view attrs 1"
  assume b: "dfun_shapes 3 1 state coupling \<and> state ! 2 ! 0 = Fin (Jc 0)
      \<and> attrs B_e 0 \<noteq> 0 \<and> attrs B_i 0 \<noteq> 0"
  then have sh: "dfun_shapes 3 1 state coupling" and J: "state ! 2 ! 0 = Fin (Jc 0)"
    and Be: "?m B_e 0 \<noteq> 0"
    by (simp_all add: Naskar2021_view_one)
  have z: "(0::nat) < 1" by simp
  note D = fixed_gain_dfun_nth [where Jc = Jc and m = ?m and j = 0, OF sh z J]
  show "fst (Naskar2021_dfun ?m state coupling) ! 0 ! 0
          = fst (fixed_gain_dfun ?m Jc state coupling) ! 0 ! 0"
    by (simp only: Naskar2021_dfun_nth_S(1) [OF sh z] D(3)
        fixed_gain_dSe [where p = "\<lambda>k. ?m k 0", OF Be])
  show "snd (Naskar2021_dfun ?m state coupling) ! 0 ! 0
          = snd (fixed_gain_dfun ?m Jc state coupling) ! 0 ! 0"
    by (simp only: Naskar2021_dfun_nth(2) [OF sh z] D(1))
  show "snd (Naskar2021_dfun ?m state coupling) ! 1 ! 0
          = snd (fixed_gain_dfun ?m Jc state coupling) ! 1 ! 0"
    by (simp only: Naskar2021_dfun_nth(3) [OF sh z] D(2))
next
  let ?m = "Naskar2021_view attrs 1"
  fix s r
  assume b: "dfun_shapes 3 1 state coupling \<and> state ! 2 ! 0 = Fin (Jc 0)
      \<and> attrs B_e 0 \<noteq> 0 \<and> attrs B_i 0 \<noteq> 0"
    and c: "np_clip 0 1 (state ! 1 ! 0) = Fin s \<and> Naskar2021_ri_at ?m state 0 = Fin r"
  from b have sh: "dfun_shapes 3 1 state coupling" and J: "state ! 2 ! 0 = Fin (Jc 0)"
    and Bi: "?m B_i 0 \<noteq> 0"
    by (simp_all add: Naskar2021_view_one)
  have z: "(0::nat) < 1" by simp
  note D = fixed_gain_dfun_nth [where Jc = Jc and m = ?m and j = 0, OF sh z J]
  from b have Bi': "attrs B_i 0 \<noteq> 0"
    by blast
  from c have cs: "np_clip 0 1 (state ! 1 ! 0) = Fin s"
    and cr: "Naskar2021_ri_at ?m state 0 = Fin r"
    by blast+
  have "fst (Naskar2021_dfun ?m state coupling) ! 1 ! 0
      = Naskar2021_dSi (\<lambda>k. ?m k 0) (Fin s) (Fin r)"
    by (simp only: Naskar2021_dfun_nth_S(2) [OF sh z] cs cr)
  also have "\<dots> = Fin (- s * attrs B_i 0 + attrs alfa_i 0 * attrs t_gaba 0 * (1 - s) * r / 1000)"
    by (simp only: Naskar2021_dSi_Fin Naskar2021_view_one)
  finally show "fst (Naskar2021_dfun ?m state coupling) ! 1 ! 0
      = Fin (- s * attrs B_i 0 + attrs alfa_i 0 * attrs t_gaba 0 * (1 - s) * r / 1000)" .
  have "fst (fixed_gain_dfun ?m Jc state coupling) ! 1 ! 0
      = Deco2018_dSi (fixed_gain_table (\<lambda>k. ?m k 0) (Jc 0)) (Fin s) (Fin r)"
    by (simp only: D(4) cs cr)
  also have "\<dots> = Fin (- s * attrs B_i 0 + attrs alfa_i 0 * attrs t_gaba 0 * r / 1000)"
    unfolding Naskar2021_view_one
    by (rule fixed_gain_dSi_Fin [where p = "\<lambda>k. attrs k 0", OF Bi'])
  finally show "fst (fixed_gain_dfun ?m Jc state coupling) ! 1 ! 0
      = Fin (- s * attrs B_i 0 + attrs alfa_i 0 * attrs t_gaba 0 * r / 1000)" .
qed

lemma gamma_zero_defaults_rates:
  "\<exists>a b. Naskar2021_re_at (Naskar2021_view (Naskar2021_gamma_zero Naskar2021_defaults) 1)
            Naskar2021_rest no_coupling 0 = Fin a
       \<and> Naskar2021_ri_at (Naskar2021_view (Naskar2021_gamma_zero Naskar2021_defaults) 1)
            Naskar2021_rest 0 = Fin b \<and> b \<noteq> 0"
  using Naskar2021_rest_rates
  by (simp only: Naskar2021_view_one_at Naskar2021_gamma_zero_at)

lemma gamma_zero_defaults_entries:
  "Naskar2021_gamma_zero Naskar2021_defaults gamma 0 = 0"
  "Naskar2021_gamma_zero Naskar2021_defaults B_e 0 = 0.0066"
  "Naskar2021_gamma_zero Naskar2021_defaults B_i 0 = 0.18"
  "Naskar2021_gamma_zero Naskar2021_defaults alfa_i 0 = 0.53"
  "Naskar2021_gamma_zero Naskar2021_defaults t_gaba 0 = 1.82"
  by (simp_all add: Naskar2021_gamma_zero_def Naskar2021_defaults_def Naskar2021_rows)

lemma Naskar2021_rest_entries:
  "Naskar2021_rest ! 2 ! 0 = Fin 1" "np_clip 0 1 (Naskar2021_rest ! 1 ! 0) = Fin 0.001"
  by (simp_all add: Naskar2021_rest_def)

theorem gamma_zero_one_region_witness:
  "fst (Naskar2021_dfun (Naskar2021_view (Naskar2021_gamma_zero Naskar2021_defaults) 1)
          Naskar2021_rest no_coupling) ! 2 ! 0 = Fin 0
   \<and> fst (Naskar2021_dfun (Naskar2021_view (Naskar2021_gamma_zero Naskar2021_defaults) 1)
          Naskar2021_rest no_coupling) ! 0 ! 0
       = fst (fixed_gain_dfun (Naskar2021_view (Naskar2021_gamma_zero Naskar2021_defaults) 1)
               (\<lambda>j. 1) Naskar2021_rest no_coupling) ! 0 ! 0
   \<and> snd (Naskar2021_dfun (Naskar2021_view (Naskar2021_gamma_zero Naskar2021_defaults) 1)
          Naskar2021_rest no_coupling) ! 1 ! 0
       = snd (fixed_gain_dfun (Naskar2021_view (Naskar2021_gamma_zero Naskar2021_defaults) 1)
               (\<lambda>j. 1) Naskar2021_rest no_coupling) ! 1 ! 0"
proof -
  let ?A = "Naskar2021_gamma_zero Naskar2021_defaults"
  let ?m = "Naskar2021_view ?A 1"
  note T = gamma_zero_one_region [of Naskar2021_rest no_coupling ?A "\<lambda>j. 1"]
  obtain a b where "Naskar2021_re_at ?m Naskar2021_rest no_coupling 0 = Fin a"
    and "Naskar2021_ri_at ?m Naskar2021_rest 0 = Fin b"
    using gamma_zero_defaults_rates by blast
  then have f: "is_finite (Naskar2021_re_at ?m Naskar2021_rest no_coupling 0)"
    "is_finite (Naskar2021_ri_at ?m Naskar2021_rest 0)"
    by simp_all
  have g: "?A gamma 0 = 0" and Be: "?A B_e 0 \<noteq> 0" and Bi: "?A B_i 0 \<noteq> 0"
    by (simp_all add: gamma_zero_defaults_entries)
  have h1: "dfun_shapes 3 1 Naskar2021_rest no_coupling \<and> ?A gamma 0 = 0
      \<and> is_finite (Naskar2021_re_at ?m Naskar2021_rest no_coupling 0)
      \<and> is_finite (Naskar2021_ri_at ?m Naskar2021_rest 0)"
    using Naskar2021_rest_shapes g f by (intro conjI)
  have h2: "dfun_shapes 3 1 Naskar2021_rest no_coupling \<and> Naskar2021_rest ! 2 ! 0 = Fin 1
      \<and> ?A B_e 0 \<noteq> 0 \<and> ?A B_i 0 \<noteq> 0"
    using Naskar2021_rest_shapes Naskar2021_rest_entries(1) Be Bi by (intro conjI)
  from T [THEN conjunct1, THEN mp, OF h1] T [THEN conjunct2, THEN mp, OF h2]
  show ?thesis by blast
qed

theorem gamma_zero_one_region_counterexample:
  "Naskar2021_gamma_zero Naskar2021_threshold_table gamma 0 = 0
   \<and> fst (Naskar2021_dfun (Naskar2021_view (Naskar2021_gamma_zero Naskar2021_threshold_table) 1)
          Naskar2021_silent no_coupling) ! 2 ! 0 = NaN
   \<and> fst (Naskar2021_dfun (Naskar2021_view (Naskar2021_gamma_zero Naskar2021_threshold_table) 1)
          Naskar2021_silent no_coupling) ! 2 ! 0 \<noteq> Fin 0
   \<and> fst (Naskar2021_dfun (Naskar2021_view (Naskar2021_gamma_zero Naskar2021_defaults) 1)
          Naskar2021_rest no_coupling) ! 1 ! 0
       \<noteq> fst (fixed_gain_dfun (Naskar2021_view (Naskar2021_gamma_zero Naskar2021_defaults) 1)
               (\<lambda>j. 1) Naskar2021_rest no_coupling) ! 1 ! 0"
proof -
  let ?T = "Naskar2021_gamma_zero Naskar2021_threshold_table"
  let ?mT = "Naskar2021_view ?T 1"
  let ?A = "Naskar2021_gamma_zero Naskar2021_defaults"
  let ?m = "Naskar2021_view ?A 1"
  have z: "(0::nat) < 1" by simp
  have g: "?T gamma 0 = 0"
    by (simp add: Naskar2021_gamma_zero_def)
  have "Naskar2021_re_at Naskar2021_threshold_table Naskar2021_silent no_coupling 0 = NaN"
    by (simp add: Naskar2021_re_at_def Naskar2021_threshold_ye rate_Fin)
  then have re: "Naskar2021_re_at ?mT Naskar2021_silent no_coupling 0 = NaN"
    by (simp only: Naskar2021_view_one_at Naskar2021_gamma_zero_at)
  have "fst (Naskar2021_dfun ?mT Naskar2021_silent no_coupling) ! 2 ! 0 =
      Naskar2021_dJ (\<lambda>k. ?mT k 0) NaN (Naskar2021_ri_at ?mT Naskar2021_silent 0)"
    by (simp only: Naskar2021_dfun_nth(1) [OF silent_shapes(1) z] re)
  also have "\<dots> = NaN"
    by (cases "Naskar2021_ri_at ?mT Naskar2021_silent 0")
      (simp_all add: Naskar2021_dJ_def minus_f8_def)
  finally have nan: "fst (Naskar2021_dfun ?mT Naskar2021_silent no_coupling) ! 2 ! 0 = NaN" .
  obtain a b where ri: "Naskar2021_ri_at ?m Naskar2021_rest 0 = Fin b" and b: "b \<noteq> 0"
    using gamma_zero_defaults_rates by blast
  have N: "fst (Naskar2021_dfun ?m Naskar2021_rest no_coupling) ! 1 ! 0
      = Fin (- 0.001 * 0.18 + 0.53 * 1.82 * (1 - 0.001) * b / 1000)"
    by (simp only: Naskar2021_dfun_nth_S(2) [OF Naskar2021_rest_shapes z] ri
        Naskar2021_rest_entries Naskar2021_dSi_Fin Naskar2021_view_one
        gamma_zero_defaults_entries)
  have J: "Naskar2021_rest ! 2 ! 0 = Fin ((\<lambda>j. 1) (0::nat))"
    by (simp add: Naskar2021_rest_entries)
  have Bi: "?A B_i 0 \<noteq> 0"
    by (simp add: gamma_zero_defaults_entries)
  have "fst (fixed_gain_dfun ?m (\<lambda>j. 1) Naskar2021_rest no_coupling) ! 1 ! 0
      = Deco2018_dSi (fixed_gain_table (\<lambda>k. ?A k 0) 1) (Fin 0.001) (Fin b)"
    by (simp only: fixed_gain_dfun_nth(4)
          [where Jc = "\<lambda>j. 1" and m = ?m and j = 0, OF Naskar2021_rest_shapes z J]
        ri Naskar2021_rest_entries Naskar2021_view_one)
  also have "\<dots> = Fin (- 0.001 * 0.18 + 0.53 * 1.82 * b / 1000)"
    by (simp only: fixed_gain_dSi_Fin [where p = "\<lambda>k. ?A k 0", OF Bi]
        gamma_zero_defaults_entries)
  finally have D: "fst (fixed_gain_dfun ?m (\<lambda>j. 1) Naskar2021_rest no_coupling) ! 1 ! 0
      = Fin (- 0.001 * 0.18 + 0.53 * 1.82 * b / 1000)" .
  have "- 0.001 * 0.18 + 0.53 * 1.82 * (1 - 0.001) * b / 1000
      \<noteq> - 0.001 * 0.18 + 0.53 * 1.82 * b / 1000"
    using b by simp
  then have "fst (Naskar2021_dfun ?m Naskar2021_rest no_coupling) ! 1 ! 0
      \<noteq> fst (fixed_gain_dfun ?m (\<lambda>j. 1) Naskar2021_rest no_coupling) ! 1 ! 0"
    unfolding N D by simp
  with g nan show ?thesis
    by simp
qed

text \<open>
  With two regions the view does not hold the attributes: the entry read as \<open>m[gamma]\<close>
  is the attribute \<open>be\<close> of the second region.
\<close>

lemma Naskar2021_view_two_regions:
  "Naskar2021_view attrs 2 gamma j = attrs be 1"
  "Naskar2021_view (Naskar2021_gamma_zero Naskar2021_defaults) 2 gamma j = 125"
  by (simp_all add: Naskar2021_view_def Naskar2021_gamma_zero_def Naskar2021_defaults_def
      Naskar2021_rows)

lemma rate_above:
  assumes "0 < y" and "0 < d"
  shows "\<exists>r. rate d (Fin y) = Fin r \<and> y < r"
proof -
  have "- (d * y) < 0"
    using assms by simp
  then have e: "exp (- (d * y)) < 1"
    by (simp only: exp_less_one_iff)
  have p: "0 < exp (- (d * y))"
    by simp
  let ?den = "1 - exp (- (d * y))"
  have den: "0 < ?den" "?den < 1"
    using e p by simp_all
  then have "y * ?den < y"
    using assms(1) by simp
  then have "y < y / ?den"
    using den(1) by (simp add: pos_less_divide_eq)
  then show ?thesis
    using assms by (simp add: rate_Fin)
qed

lemma two_regions_shapes: "dfun_shapes 3 2 Naskar2021_rest_two no_coupling_two"
  by (simp add: dfun_shapes_def Naskar2021_rest_two_def no_coupling_two_def)

text \<open>
  With two regions and the attribute \<open>gamma\<close> set to zero the third derivative row is not
  zero: the function reads its parameters from the first 21 numbers of the table's memory,
  and the number it reads as \<open>m[gamma]\<close> is 125.
\<close>

lemma Naskar2021_two_regions_dJ:
  "\<exists>x. fst (Naskar2021_dfun (Naskar2021_view (Naskar2021_gamma_zero Naskar2021_defaults) 2)
            Naskar2021_rest_two no_coupling_two) ! 2 ! 0 = Fin x \<and> 0 < x"
proof -
  let ?m = "Naskar2021_view (Naskar2021_gamma_zero Naskar2021_defaults) 2"
  have v: "?m We 0 = 1.82" "?m I0 0 = 1" "?m w 0 = 1" "?m J_NMDA 0 = 0.7" "?m M_e 0 = 0.7"
    "?m ae 0 = 0.382" "?m be 0 = 0.382" "?m de 0 = 1.4" "?m Wi 0 = 1.82" "?m M_i 0 = 1.4"
    "?m ai 0 = 0.15" "?m bi 0 = 0.15" "?m di 0 = 1" "?m gamma 0 = 125" "?m rho 0 = 0.16"
    by (simp_all add: Naskar2021_view_def Naskar2021_gamma_zero_def Naskar2021_defaults_def
        Naskar2021_rows)
  have ye: "Naskar2021_ye_at ?m Naskar2021_rest_two no_coupling_two 0 = Fin 0.21918778"
    by (simp add: Naskar2021_ye_at_def Naskar2021_Ie_at_def Naskar2021_ye_def Naskar2021_Ie_def
        v Naskar2021_rest_two_def no_coupling_two_def minus_f8_def)
  have yi: "Naskar2021_yi_at ?m Naskar2021_rest_two 0 = Fin 0.1721370"
    by (simp add: Naskar2021_yi_at_def Naskar2021_yi_def Naskar2021_Ii_def
        v Naskar2021_rest_two_def minus_f8_def)
  obtain a where a: "rate 1.4 (Fin 0.21918778) = Fin a" "0.21918778 < a"
    using rate_above [of "0.21918778" "1.4"] by auto
  obtain b where b: "rate 1 (Fin 0.1721370) = Fin b" "0.1721370 < b"
    using rate_above [of "0.1721370" 1] by auto
  have re: "Naskar2021_re_at ?m Naskar2021_rest_two no_coupling_two 0 = Fin a"
    by (simp only: Naskar2021_re_at_def ye v a)
  have ri: "Naskar2021_ri_at ?m Naskar2021_rest_two 0 = Fin b"
    by (simp only: Naskar2021_ri_at_def yi v b)
  have z: "(0::nat) < 2" by simp
  have "fst (Naskar2021_dfun ?m Naskar2021_rest_two no_coupling_two) ! 2 ! 0
      = Naskar2021_dJ (\<lambda>k. ?m k 0) (Fin a) (Fin b)"
    by (simp only: Naskar2021_dfun_nth(1) [OF two_regions_shapes z] re ri)
  also have "\<dots> = Fin (125 * b / 1000 * (a - 0.16) / 1000)"
    by (simp add: Naskar2021_dJ_def v minus_f8_def)
  finally have "fst (Naskar2021_dfun ?m Naskar2021_rest_two no_coupling_two) ! 2 ! 0
      = Fin (125 * b / 1000 * (a - 0.16) / 1000)" .
  moreover have "0 < 125 * b / 1000 * (a - 0.16) / 1000"
    using a(2) b(2) by simp
  ultimately show ?thesis
    by blast
qed

end
